theory Spec2Isabelle
  imports Main "HOL-Library.Word"
begin

unbundle bit_operations_syntax

section \<open>Memory, loads and bit primitives (base/cpu.h)\<close>

text \<open>
  The parsers read through raw \<open>const uint8_t*\<close> pointers and rely on the padding the
  decoder appends to its copy of the stream, so a load is never checked against the end of
  a buffer. Memory is therefore a total map from addresses to bytes, a pointer is an
  address, and a buffer is a pair of addresses. The code is the 64-bit configuration
  (\<open>__SIZEOF_SIZE_T__ == 8\<close>): \<open>uintptr_t\<close> is a 64-bit word.
\<close>

type_synonym memory = "nat \<Rightarrow> 8 word"

definition mem_of :: "8 word list \<Rightarrow> memory" where
  "mem_of bs = (\<lambda>i. if i < length bs then bs ! i else 0)"

definition LoadUINT16BE :: "memory \<Rightarrow> nat \<Rightarrow> 16 word" where
  "LoadUINT16BE m p = push_bit 8 (ucast (m p)) OR ucast (m (p + 1))"

definition LoadUINT32BE :: "memory \<Rightarrow> nat \<Rightarrow> 32 word" where
  "LoadUINT32BE m p =
     push_bit 24 (ucast (m p)) OR push_bit 16 (ucast (m (p + 1))) OR
     push_bit 8 (ucast (m (p + 2))) OR ucast (m (p + 3))"

definition LoadUINT64BE :: "memory \<Rightarrow> nat \<Rightarrow> 64 word" where
  "LoadUINT64BE m p =
     push_bit 32 (ucast (LoadUINT32BE m p)) OR ucast (LoadUINT32BE m (p + 4))"

definition LoadUINT64LE :: "memory \<Rightarrow> nat \<Rightarrow> 64 word" where
  "LoadUINT64LE m p =
     ucast (m p) OR push_bit 8 (ucast (m (p + 1))) OR
     push_bit 16 (ucast (m (p + 2))) OR push_bit 24 (ucast (m (p + 3))) OR
     push_bit 32 (ucast (m (p + 4))) OR push_bit 40 (ucast (m (p + 5))) OR
     push_bit 48 (ucast (m (p + 6))) OR push_bit 56 (ucast (m (p + 7)))"

text \<open>\<open>CPU::BitExtractUINT32(n, start, length)\<close> is \<open>(n >> start) & ((1 << length) - 1)\<close>.\<close>

definition BitExtractUINT32 :: "32 word \<Rightarrow> nat \<Rightarrow> nat \<Rightarrow> 32 word" where
  "BitExtractUINT32 n start len = drop_bit start n AND (push_bit len 1 - 1)"

text \<open>
  \<open>__builtin_clz\<close>, \<open>__builtin_clzll\<close> and \<open>__builtin_ctzll\<close> count the zero bits above
  the highest, or below the lowest, set bit. The builtins are undefined at 0; the model
  gives the word size there, which is what the \<open>lzcnt\<close>, \<open>clz\<close> and \<open>tzcnt\<close>
  instructions return.
\<close>

definition clz :: "'a::len word \<Rightarrow> nat" where
  "clz w = length (takeWhile Not (map (bit w) (rev [0..<LENGTH('a)])))"

definition ctz :: "'a::len word \<Rightarrow> nat" where
  "ctz w = length (takeWhile Not (map (bit w) [0..<LENGTH('a)]))"

text \<open>The number of trailing zero bits of a natural number, for evaluating \<open>ctz\<close>.\<close>

fun ctz_nat :: "nat \<Rightarrow> nat" where
  "ctz_nat n = (if n = 0 \<or> odd n then 0 else Suc (ctz_nat (n div 2)))"

declare ctz_nat.simps [simp del]

section \<open>The bit-stream reader (hevc/bitstream.h, hevc/bitstream.cc)\<close>

text \<open>
  \<open>struct BitStreamReader\<close> with its members \<open>top_\<close>, \<open>end_\<close>, \<open>cache_\<close> and
  \<open>length_\<close> (a trailing underscore is not an identifier here, so the fields carry the
  prefix \<open>bs\<close>). \<open>CACHE_BITS\<close> is 64 and \<open>CACHE_BITS2\<close> is 32. The counter
  \<open>length_\<close> is a \<open>uintptr_t\<close> and wraps around.

  The reader shifts \<open>cache_\<close> by \<open>length_\<close>, which is 64 right after \<open>LoadCache\<close>. A
  shift of a 64-bit word by 64 or more is undefined in C++. The shift instructions of
  x86-64 and AArch64, the processors the decoder is built for, take the count modulo 64,
  and so do \<open>shift_right\<close> and \<open>shift_left\<close>: at \<open>length_ = 64\<close> the code
  \<open>cache_ >> length_\<close> is the whole cache, and \<open>cache_ ^= code << length_\<close> clears it.
\<close>

record BitStreamReader =
  bs_top :: nat
  bs_end :: nat
  bs_cache :: "64 word"
  bs_length :: "64 word"

definition shift_right :: "64 word \<Rightarrow> 64 word \<Rightarrow> 64 word" where
  "shift_right w n = drop_bit (unat n mod 64) w"

definition shift_left :: "64 word \<Rightarrow> 64 word \<Rightarrow> 64 word" where
  "shift_left w n = push_bit (unat n mod 64) w"

definition LoadCache :: "memory \<Rightarrow> BitStreamReader \<Rightarrow> BitStreamReader" where
  "LoadCache m r = r \<lparr> bs_cache := LoadUINT64BE m (bs_top r), bs_top := bs_top r + 64 div 8,
                        bs_length := 64 \<rparr>"

definition Initialize :: "memory \<Rightarrow> nat \<Rightarrow> nat \<Rightarrow> BitStreamReader" where
  "Initialize m top_p end_p =
     LoadCache m \<lparr> bs_top = top_p, bs_end = end_p, bs_cache = 0, bs_length = 0 \<rparr>"

definition FillCache :: "memory \<Rightarrow> BitStreamReader \<Rightarrow> BitStreamReader" where
  "FillCache m r = r \<lparr> bs_cache := push_bit 32 (bs_cache r) OR ucast (LoadUINT32BE m (bs_top r)),
                        bs_top := bs_top r + 32 div 8, bs_length := bs_length r + 32 \<rparr>"

text \<open>
  The tail shared by every read: \<open>length_ -= n; code = cache_ >> length_;
  cache_ ^= code << length_\<close>, returning \<open>code\<close>.
\<close>

definition take_code :: "64 word \<Rightarrow> BitStreamReader \<Rightarrow> 64 word \<times> BitStreamReader" where
  "take_code n r =
    (let len = bs_length r - n;
         code = shift_right (bs_cache r) len
     in (code, r \<lparr> bs_length := len, bs_cache := bs_cache r XOR shift_left code len \<rparr>))"

definition GetBit :: "memory \<Rightarrow> BitStreamReader \<Rightarrow> 'a::len word \<times> BitStreamReader" where
  "GetBit m r =
    (let r1 = (if bs_length r = 0 then LoadCache m r else r);
         (code, r2) = take_code 1 r1
     in (ucast code, r2))"

definition GetBits :: "memory \<Rightarrow> 64 word \<Rightarrow> BitStreamReader \<Rightarrow> 'a::len word \<times> BitStreamReader" where
  "GetBits m n r =
    (let r1 = (if bs_length r < n then FillCache m r else r);
         (code, r2) = take_code n r1
     in (ucast code, r2))"

definition ReadGolomb :: "memory \<Rightarrow> BitStreamReader \<Rightarrow> 64 word \<times> BitStreamReader" where
  "ReadGolomb m r =
    (let r1 = (if bs_length r < 32 then FillCache m r else r);
         scan = shift_left (bs_cache r1) (64 - bs_length r1);
         code_length = (of_nat (clz scan) * 2 + 1 :: 64 word);
         (code, r2) = take_code code_length r1
     in (code - 1, r2))"

definition GetGolomb :: "memory \<Rightarrow> BitStreamReader \<Rightarrow> 'a::len word \<times> BitStreamReader" where
  "GetGolomb m r = (let (code, r1) = ReadGolomb m r in (ucast code, r1))"

definition SkipGolomb :: "memory \<Rightarrow> BitStreamReader \<Rightarrow> BitStreamReader" where
  "SkipGolomb m r = snd (ReadGolomb m r)"

text \<open>
  \<open>SkipBits(length)\<close>: when \<open>length >= length_\<close> the reader moves \<open>top_\<close> by the whole bytes
  of \<open>length - length_\<close>, reloads the cache and skips the remaining \<open>(length - length_) & 7\<close>
  bits. When that remainder is 0 the final \<open>cache_ ^= (cache_ >> length_) << length_\<close> runs
  with \<open>length_ = 64\<close> and clears the cache that was just loaded.
\<close>

definition SkipBits :: "memory \<Rightarrow> 64 word \<Rightarrow> BitStreamReader \<Rightarrow> BitStreamReader" where
  "SkipBits m n r =
    (let (n1, r1) =
           (if n \<ge> bs_length r
            then let d = n - bs_length r
                 in (d AND 7, LoadCache m (r \<lparr> bs_top := bs_top r + unat (drop_bit 3 d) \<rparr>))
            else (n, r))
     in snd (take_code n1 r1))"

definition SkipToByteBoundary :: "BitStreamReader \<Rightarrow> BitStreamReader" where
  "SkipToByteBoundary r = snd (take_code 0 (r \<lparr> bs_length := bs_length r AND NOT 7 \<rparr>))"

text \<open>
  The bit stream the reader walks: bit \<open>p\<close> of memory, most significant bit of each byte
  first, and the position of the next unread bit of a reader.
\<close>

definition stream_bit :: "memory \<Rightarrow> nat \<Rightarrow> bool" where
  "stream_bit m p = bit (m (p div 8)) (7 - p mod 8)"

definition bit_position :: "BitStreamReader \<Rightarrow> nat" where
  "bit_position r = 8 * bs_top r - unat (bs_length r)"

text \<open>
  The canonical Exp-Golomb code word of \<open>v\<close> (ITU-T H.265, 9.2, and the table in
  bitstream.h): \<open>k\<close> zero bits, a one, and the \<open>k\<close> bits of \<open>v + 1 - 2 ^ k\<close>, where
  \<open>2 ^ k \<le> v + 1 < 2 ^ (k + 1)\<close>.
\<close>

fun bit_len :: "nat \<Rightarrow> nat" where
  "bit_len n = (if n = 0 then 0 else Suc (bit_len (n div 2)))"

declare bit_len.simps [simp del]

definition bits_be :: "nat \<Rightarrow> nat \<Rightarrow> bool list" where
  "bits_be n v = map (\<lambda>i. bit v (n - 1 - i)) [0..<n]"

definition golomb_code :: "nat \<Rightarrow> bool list" where
  "golomb_code v =
     (let k = bit_len (v + 1) - 1 in replicate k False @ True # bits_be k (v + 1 - 2 ^ k))"

section \<open>Profile, tier and level (hevc/decoder.h, Decoder::ParseProfileTierLevel)\<close>

record ProfileTierLevel =
  general_profile_compatibility_flags :: "32 word"
  general_profile_space :: "8 word"
  general_tier_flag :: "8 word"
  general_profile_idc :: "8 word"
  general_progressive_source_flag :: "8 word"
  general_interlaced_source_flag :: "8 word"
  general_non_packed_constraint_flag :: "8 word"
  general_frame_only_constraint_flag :: "8 word"
  general_inbld_flag :: "8 word"
  general_level_idc :: "8 word"

definition ptl_zero :: ProfileTierLevel where
  "ptl_zero = \<lparr> general_profile_compatibility_flags = 0, general_profile_space = 0,
     general_tier_flag = 0, general_profile_idc = 0, general_progressive_source_flag = 0,
     general_interlaced_source_flag = 0, general_non_packed_constraint_flag = 0,
     general_frame_only_constraint_flag = 0, general_inbld_flag = 0,
     general_level_idc = 0 \<rparr>"

text \<open>
  \<open>ParseProfileTierLevel(top, end, max_sub_layers_minus1, ptl)\<close> returns the advanced
  pointer, or \<open>NULL\<close> (here \<open>None\<close>), and fills \<open>*ptl\<close>. The pointer difference
  \<open>end - top\<close> is signed. The parameter \<open>max_sub_layers_minus1\<close> is not read by the body.
\<close>

definition ParseProfileTierLevel ::
  "memory \<Rightarrow> nat \<Rightarrow> nat \<Rightarrow> 64 word \<Rightarrow> ProfileTierLevel \<Rightarrow> nat option \<times> ProfileTierLevel" where
  "ParseProfileTierLevel m top_p end_p max_sub_layers_minus1 ptl =
    (if int end_p - int top_p < (2 + 1 + 5 + 32 + 4 + 43 + 1 + 8) div 8 then (None, ptl)
     else
       let data0 = (ucast (m top_p) :: 32 word);
           idc = (ucast (BitExtractUINT32 data0 0 5) :: 8 word);
           data1 = LoadUINT32BE m (top_p + 1);
           data5 = (ucast (m (top_p + 5)) :: 32 word);
           data10 = (ucast (m (top_p + 10)) :: 32 word)
       in (Some (top_p + 12),
           ptl \<lparr> general_profile_space := ucast (BitExtractUINT32 data0 6 2),
                 general_tier_flag := ucast (BitExtractUINT32 data0 5 1),
                 general_profile_compatibility_flags := data1,
                 general_profile_idc := (if idc = 0 then of_nat (clz data1) else idc),
                 general_progressive_source_flag := ucast (BitExtractUINT32 data5 7 1),
                 general_interlaced_source_flag := ucast (BitExtractUINT32 data5 6 1),
                 general_non_packed_constraint_flag := ucast (BitExtractUINT32 data5 5 1),
                 general_frame_only_constraint_flag := ucast (BitExtractUINT32 data5 4 1),
                 general_inbld_flag := ucast (BitExtractUINT32 data10 0 1),
                 general_level_idc := m (top_p + 11) \<rparr>))"

section \<open>The atom walker (mov/atom_collection.h, mov/atom_collection.cc)\<close>

text \<open>
  Modelled from the spec: \<open>mov/atom.h\<close> is not among the sources, so the accessors
  \<open>Atom::GetSize\<close> and \<open>Atom::GetType\<close> and the \<open>TYPE_*\<close> four-character codes follow the
  spec's box, a 4-byte big-endian size followed by a 4-byte type code, the 8-byte box
  header.
\<close>

definition Atom_GetSize :: "memory \<Rightarrow> nat \<Rightarrow> 32 word" where
  "Atom_GetSize m atom = LoadUINT32BE m atom"

definition Atom_GetType :: "memory \<Rightarrow> nat \<Rightarrow> 32 word" where
  "Atom_GetType m atom = LoadUINT32BE m (atom + 4)"

definition TYPE_FTYP :: "32 word" where "TYPE_FTYP = 0x66747970"
definition TYPE_MDAT :: "32 word" where "TYPE_MDAT = 0x6D646174"
definition TYPE_MOOV :: "32 word" where "TYPE_MOOV = 0x6D6F6F76"
definition TYPE_TRAK :: "32 word" where "TYPE_TRAK = 0x7472616B"
definition TYPE_MDIA :: "32 word" where "TYPE_MDIA = 0x6D646961"
definition TYPE_MINF :: "32 word" where "TYPE_MINF = 0x6D696E66"
definition TYPE_STBL :: "32 word" where "TYPE_STBL = 0x7374626C"
definition TYPE_MDHD :: "32 word" where "TYPE_MDHD = 0x6D646864"
definition TYPE_STSD :: "32 word" where "TYPE_STSD = 0x73747364"
definition TYPE_STTS :: "32 word" where "TYPE_STTS = 0x73747473"
definition TYPE_STSS :: "32 word" where "TYPE_STSS = 0x73747373"
definition TYPE_STSC :: "32 word" where "TYPE_STSC = 0x73747363"
definition TYPE_STSZ :: "32 word" where "TYPE_STSZ = 0x7374737A"
definition TYPE_STCO :: "32 word" where "TYPE_STCO = 0x7374636F"

text \<open>\<open>enum AtomID\<close>; \<open>ID_ERROR\<close> is also the length of \<open>atoms_[]\<close>.\<close>

definition ID_FTYP :: nat where "ID_FTYP = 0"
definition ID_MDAT :: nat where "ID_MDAT = 1"
definition ID_MDHD :: nat where "ID_MDHD = 2"
definition ID_STSD :: nat where "ID_STSD = 3"
definition ID_STTS :: nat where "ID_STTS = 4"
definition ID_STSS :: nat where "ID_STSS = 5"
definition ID_STSC :: nat where "ID_STSC = 6"
definition ID_STSZ :: nat where "ID_STSZ = 7"
definition ID_STCO :: nat where "ID_STCO = 8"
definition ID_ERROR :: nat where "ID_ERROR = 9"

text \<open>
  \<open>atoms_[]\<close> maps an atom ID to the atom's address, \<open>None\<close> being the null pointer. The
  pair threaded through the walk is \<open>atoms_[]\<close> and the local \<open>atom_mask\<close>.
  \<open>put_atom\<close> is the body of the \<open>ftyp\<close> and \<open>mdat\<close> cases, \<open>put_first_atom\<close> that of the
  cases guarded by \<open>if (!atoms_[ID])\<close>, and \<open>record_atom\<close> the \<open>switch\<close> without its
  container cases.
\<close>

type_synonym atom_table = "nat \<Rightarrow> nat option"

definition put_atom :: "nat \<Rightarrow> nat \<Rightarrow> atom_table \<times> 32 word \<Rightarrow> atom_table \<times> 32 word" where
  "put_atom i atom s = ((fst s)(i \<mapsto> atom), snd s OR push_bit i 1)"

definition put_first_atom :: "nat \<Rightarrow> nat \<Rightarrow> atom_table \<times> 32 word \<Rightarrow> atom_table \<times> 32 word" where
  "put_first_atom i atom s = (if fst s i = None then put_atom i atom s else s)"

definition is_container :: "32 word \<Rightarrow> bool" where
  "is_container atom_type \<longleftrightarrow>
     atom_type = TYPE_MOOV \<or> atom_type = TYPE_TRAK \<or> atom_type = TYPE_MDIA \<or>
     atom_type = TYPE_MINF \<or> atom_type = TYPE_STBL"

definition record_atom :: "32 word \<Rightarrow> nat \<Rightarrow> atom_table \<times> 32 word \<Rightarrow> atom_table \<times> 32 word" where
  "record_atom atom_type atom s =
    (if atom_type = TYPE_FTYP then put_atom ID_FTYP atom s
     else if atom_type = TYPE_MDAT then put_atom ID_MDAT atom s
     else if atom_type = TYPE_MDHD then put_first_atom ID_MDHD atom s
     else if atom_type = TYPE_STSD then put_first_atom ID_STSD atom s
     else if atom_type = TYPE_STTS then put_first_atom ID_STTS atom s
     else if atom_type = TYPE_STSS then put_first_atom ID_STSS atom s
     else if atom_type = TYPE_STSC then put_first_atom ID_STSC atom s
     else if atom_type = TYPE_STSZ then put_first_atom ID_STSZ atom s
     else if atom_type = TYPE_STCO then put_first_atom ID_STCO atom s
     else s)"

text \<open>
  The \<open>while (start < end)\<close> loop of \<open>EnumerateChildAtoms\<close>, with the recursive call for
  the container atoms. The loop need not terminate, so the walk is a partial function and
  \<open>None\<close> is a walk that never returns. Every \<open>switch\<close> case ends in
  \<open>start += atom_size\<close> and the next iteration.
\<close>

partial_function (option) EnumerateChildAtoms_loop ::
  "memory \<Rightarrow> nat \<Rightarrow> nat \<Rightarrow> atom_table \<times> 32 word \<Rightarrow> (atom_table \<times> 32 word) option" where
  "EnumerateChildAtoms_loop m start end_p s =
    (if start < end_p then
       if start + unat (Atom_GetSize m start) > end_p then Some (fst s, push_bit ID_ERROR 1)
       else
         Option.bind
           (if is_container (Atom_GetType m start) then
              Option.bind
                (EnumerateChildAtoms_loop m (start + 8) (start + unat (Atom_GetSize m start))
                   (fst s, 0))
                (\<lambda>c. Some (fst c, snd s OR snd c))
            else Some (record_atom (Atom_GetType m start) start s))
           (\<lambda>s'. EnumerateChildAtoms_loop m (start + unat (Atom_GetSize m start)) end_p s')
     else Some s)"

definition EnumerateChildAtoms ::
  "memory \<Rightarrow> atom_table \<Rightarrow> nat \<Rightarrow> nat \<Rightarrow> nat \<Rightarrow> (atom_table \<times> 32 word) option" where
  "EnumerateChildAtoms m tbl data offset sz =
     EnumerateChildAtoms_loop m (data + offset) (data + sz) (tbl, 0)"

definition REQUIRED_ATOMS :: "32 word" where
  "REQUIRED_ATOMS = push_bit ID_FTYP 1 OR push_bit ID_MDAT 1 OR push_bit ID_STSD 1 OR
     push_bit ID_STSC 1 OR push_bit ID_STSZ 1 OR push_bit ID_STCO 1"

record AtomCollection =
  ac_atoms :: atom_table
  ac_mask :: "32 word"

definition AtomCollection_Initialize :: AtomCollection where
  "AtomCollection_Initialize = \<lparr> ac_atoms = (\<lambda>_. None), ac_mask = 0 \<rparr>"

definition Enumerate :: "memory \<Rightarrow> AtomCollection \<Rightarrow> nat \<Rightarrow> nat \<Rightarrow> (int \<times> AtomCollection) option" where
  "Enumerate m c data sz =
     map_option (\<lambda>r. ((if snd r AND (REQUIRED_ATOMS OR push_bit ID_ERROR 1) = REQUIRED_ATOMS then 1 else 0),
                       \<lparr> ac_atoms = fst r, ac_mask = snd r \<rparr>))
       (EnumerateChildAtoms m (ac_atoms c) data 0 sz)"

text \<open>A \<open>free\<close> atom whose size field is 0, and a \<open>moov\<close> atom with a child that overruns it,
  followed by such a \<open>free\<close> atom.\<close>

definition zero_size_stream :: "8 word list" where
  "zero_size_stream = [0, 0, 0, 0, 0x66, 0x72, 0x65, 0x65]"


definition overrun_then_zero_size_stream :: "8 word list" where
  "overrun_then_zero_size_stream =
     [0, 0, 0, 16, 0x6D, 0x6F, 0x6F, 0x76,
      0, 0, 0, 100, 0x66, 0x72, 0x65, 0x65,
      0, 0, 0, 0, 0x66, 0x72, 0x65, 0x65]"

section \<open>SEI messages (hevc/decoder.h, Decoder::DecodeSupplementalEnhancementInformation)\<close>

record AlphaChannelInformation =
  alpha_channel_cancel_flag :: "8 word"
  alpha_channel_use_idc :: "8 word"
  alpha_channel_bit_depth_minus8 :: "8 word"
  alpha_transparent_value :: "8 word"
  alpha_opaque_value :: "8 word"
  alpha_channel_incr_flag :: "8 word"
  alpha_channel_clip_flag :: "8 word"

definition SEI_TYPE_ALPHA_CHANNEL_INFO :: "64 word" where
  "SEI_TYPE_ALPHA_CHANNEL_INFO = 165"

text \<open>\<open>CPU::BitMaskUPTR(length)\<close> is \<open>~(~0ULL << length)\<close>.\<close>

definition BitMaskUPTR :: "64 word \<Rightarrow> 64 word" where
  "BitMaskUPTR len = NOT (push_bit (unat len) (NOT 0))"

text \<open>
  The code after the label \<open>payload_read_last_word\<close>: the index of the first byte of the
  inverted word that is not 0, that is of the first size byte that is not 0xFF.
\<close>

definition payload_read_last_word :: "64 word \<Rightarrow> nat \<Rightarrow> 64 word \<Rightarrow> nat \<times> 64 word" where
  "payload_read_last_word payload_word payload_data payload_size =
    (let payload_index = drop_bit 3 (of_nat (ctz payload_word) :: 64 word)
     in (payload_data + unat payload_index + 1,
         payload_size + 0xff * payload_index +
           (drop_bit (unat (push_bit 3 payload_index)) (NOT payload_word) AND 0xff)))"

text \<open>
  The inner \<open>while\<close> loop over the 0xFF bytes of an extended \<open>payload_size\<close>, a word at a
  time, and the masked last word; \<open>None\<close> is its \<open>return 0\<close>. \<open>payload_data\<close> never passes
  \<open>rbsp_end\<close> here, so the comparison of the pointer difference with \<open>sizeof(uintptr_t)\<close> is
  one of natural numbers.
\<close>

function payload_size_ext :: "memory \<Rightarrow> nat \<Rightarrow> nat \<Rightarrow> 64 word \<Rightarrow> (nat \<times> 64 word) option" where
  "payload_size_ext m rbsp_end payload_data payload_size =
    (if 8 \<le> rbsp_end - payload_data then
       (if NOT (LoadUINT64LE m payload_data) \<noteq> 0
        then Some (payload_read_last_word (NOT (LoadUINT64LE m payload_data)) payload_data payload_size)
        else payload_size_ext m rbsp_end (payload_data + 8) (payload_size + 0xff * 8))
     else
       (let payload_word = NOT (LoadUINT64LE m payload_data) AND
              BitMaskUPTR (push_bit 3 (of_nat (rbsp_end - payload_data)))
        in if payload_word = 0 then None
           else Some (payload_read_last_word payload_word payload_data payload_size)))"
  by pat_completeness auto
termination
  by (relation "measure (\<lambda>(m, rbsp_end, payload_data, payload_size). rbsp_end - payload_data)") auto

declare payload_size_ext.simps [simp del]

text \<open>\<open>payload_size\<close> and \<open>payload_data\<close> of the message at \<open>rbsp_top\<close>.\<close>

definition sei_payload :: "memory \<Rightarrow> nat \<Rightarrow> nat \<Rightarrow> (nat \<times> 64 word) option" where
  "sei_payload m rbsp_end rbsp_top =
    (let payload_size = (ucast (m (rbsp_top + 1)) :: 64 word);
         payload_data = rbsp_top + 2
     in if payload_size = 0xff then payload_size_ext m rbsp_end payload_data payload_size
        else Some (payload_data, payload_size))"

text \<open>
  The body of \<open>if (payload_type == SEI_TYPE_ALPHA_CHANNEL_INFO)\<close>; \<open>False\<close> is its
  \<open>return 0\<close>, taken after the first three fields are stored.
\<close>

definition decode_alpha_channel_info ::
  "32 word \<Rightarrow> AlphaChannelInformation \<Rightarrow> bool \<times> AlphaChannelInformation" where
  "decode_alpha_channel_info payload_data0 alpha =
    (let alpha1 = alpha \<lparr>
           alpha_channel_cancel_flag := ucast (drop_bit 31 payload_data0),
           alpha_channel_use_idc := ucast (BitExtractUINT32 payload_data0 28 3),
           alpha_channel_bit_depth_minus8 := ucast (BitExtractUINT32 payload_data0 25 3) \<rparr>
     in if alpha_channel_bit_depth_minus8 alpha1 \<noteq> 0 then (False, alpha1)
        else (True, alpha1 \<lparr>
           alpha_transparent_value := ucast (BitExtractUINT32 payload_data0 (25 - 9) 9),
           alpha_opaque_value := ucast (BitExtractUINT32 payload_data0 (25 - 9 * 2) 9),
           alpha_channel_incr_flag := ucast (BitExtractUINT32 payload_data0 (25 - 9 * 2 - 1) 1),
           alpha_channel_clip_flag := ucast (BitExtractUINT32 payload_data0 (25 - 9 * 2 - 2) 1) \<rparr>))"

text \<open>
  The outer \<open>while (rbsp_end - rbsp_top >= 2)\<close> loop, from the loop head at \<open>rbsp_top\<close> with the
  stored \<open>alpha_\<close>; the result is the return value and \<open>alpha_\<close>. The pointer difference is
  signed.
\<close>

function sei_loop ::
  "memory \<Rightarrow> nat \<Rightarrow> nat \<Rightarrow> AlphaChannelInformation \<Rightarrow> int \<times> AlphaChannelInformation" where
  "sei_loop m rbsp_end rbsp_top alpha =
    (if 2 \<le> int rbsp_end - int rbsp_top then
       if (ucast (m rbsp_top) :: 64 word) = 0xff then (0, alpha)
       else
         (case sei_payload m rbsp_end rbsp_top of
            None \<Rightarrow> (0, alpha)
          | Some (payload_data, payload_size) \<Rightarrow>
              if rbsp_end \<le> payload_data + unat payload_size then (1, alpha)
              else if (ucast (m rbsp_top) :: 64 word) = SEI_TYPE_ALPHA_CHANNEL_INFO then
                (case decode_alpha_channel_info (LoadUINT32BE m payload_data) alpha of
                   (False, alpha1) \<Rightarrow> (0, alpha1)
                 | (True, alpha1) \<Rightarrow> sei_loop m rbsp_end (payload_data + unat payload_size) alpha1)
              else sei_loop m rbsp_end (payload_data + unat payload_size) alpha)
     else (1, alpha))"
  by pat_completeness auto
termination
proof (relation "measure (\<lambda>(m, rbsp_end, rbsp_top, alpha). rbsp_end - rbsp_top)")
  have ext: "payload_data < fst r"
    if "payload_size_ext m rbsp_end payload_data payload_size = Some r"
    for m rbsp_end payload_data payload_size r
    using that
  proof (induction m rbsp_end payload_data payload_size rule: payload_size_ext.induct)
    case (1 m rbsp_end payload_data payload_size)
    show ?case
    proof (cases "8 \<le> rbsp_end - payload_data \<and> NOT (LoadUINT64LE m payload_data) = 0")
      case True
      with 1(2) have "payload_size_ext m rbsp_end (payload_data + 8) (payload_size + 0xff * 8) = Some r"
        by (simp add: payload_size_ext.simps [of m rbsp_end payload_data])
      with 1(1) True have "payload_data + 8 < fst r" by simp
      then show ?thesis by simp
    next
      case False
      with 1(2) show ?thesis
        by (auto simp add: payload_size_ext.simps [of m rbsp_end payload_data] Let_def
            payload_read_last_word_def split: if_splits)
    qed
  qed
  have pay: "rbsp_top < payload_data"
    if "sei_payload m rbsp_end rbsp_top = Some (payload_data, payload_size)"
    for m rbsp_end rbsp_top payload_data payload_size
    using that ext [of m rbsp_end "rbsp_top + 2" "0xff" "(payload_data, payload_size)"]
    by (auto simp add: sei_payload_def Let_def split: if_splits)
  show "wf (measure (\<lambda>(m, rbsp_end, rbsp_top, alpha). rbsp_end - rbsp_top))" by simp
  show "\<And>m rbsp_end rbsp_top alpha x2 x y xa ya x2a.
       2 \<le> int rbsp_end - int rbsp_top \<Longrightarrow>
       ucast (m rbsp_top) \<noteq> (0xff :: 64 word) \<Longrightarrow>
       sei_payload m rbsp_end rbsp_top = Some x2 \<Longrightarrow>
       (x, y) = x2 \<Longrightarrow>
       \<not> rbsp_end \<le> x + unat y \<Longrightarrow>
       ucast (m rbsp_top) = SEI_TYPE_ALPHA_CHANNEL_INFO \<Longrightarrow>
       (xa, ya) = decode_alpha_channel_info (LoadUINT32BE m x) alpha \<Longrightarrow>
       xa = True \<Longrightarrow>
       ((m, rbsp_end, x + unat y, ya), m, rbsp_end, rbsp_top, alpha)
       \<in> measure (\<lambda>(m, rbsp_end, rbsp_top, alpha). rbsp_end - rbsp_top)"
    using pay by fastforce
  show "\<And>m rbsp_end rbsp_top alpha x2 x y.
       2 \<le> int rbsp_end - int rbsp_top \<Longrightarrow>
       ucast (m rbsp_top) \<noteq> (0xff :: 64 word) \<Longrightarrow>
       sei_payload m rbsp_end rbsp_top = Some x2 \<Longrightarrow>
       (x, y) = x2 \<Longrightarrow>
       \<not> rbsp_end \<le> x + unat y \<Longrightarrow>
       ucast (m rbsp_top) \<noteq> SEI_TYPE_ALPHA_CHANNEL_INFO \<Longrightarrow>
       ((m, rbsp_end, x + unat y, alpha), m, rbsp_end, rbsp_top, alpha)
       \<in> measure (\<lambda>(m, rbsp_end, rbsp_top, alpha). rbsp_end - rbsp_top)"
    using pay by fastforce
qed


declare sei_loop.simps [simp del]

definition DecodeSupplementalEnhancementInformation ::
  "memory \<Rightarrow> AlphaChannelInformation \<Rightarrow> nat \<Rightarrow> nat \<Rightarrow> int \<times> AlphaChannelInformation" where
  "DecodeSupplementalEnhancementInformation m alpha rbsp_data rbsp_size =
     sei_loop m (rbsp_data + rbsp_size) (rbsp_data + 2) alpha"

text \<open>\<open>alpha_\<close> after \<open>Decoder::Initialize\<close>, and two SEI RBSPs: the message of the source's
  comment ending exactly at the end of the RBSP, and a message whose type byte is 0xFF.\<close>

definition alpha_zero :: AlphaChannelInformation where
  "alpha_zero = \<lparr> alpha_channel_cancel_flag = 0, alpha_channel_use_idc = 0,
     alpha_channel_bit_depth_minus8 = 0, alpha_transparent_value = 0, alpha_opaque_value = 0,
     alpha_channel_incr_flag = 0, alpha_channel_clip_flag = 0 \<rparr>"

definition sei_alpha_to_end :: "8 word list" where
  "sei_alpha_to_end = [0x4E, 0x01, 0xA5, 0x04, 0x10, 0x00, 0x7F, 0x90]"

definition sei_type_ff :: "8 word list" where
  "sei_type_ff = [0x4E, 0x01, 0xFF, 0x05, 0x00, 0x00]"

section \<open>The video parameter set (hevc/decoder.h, Decoder::DecodeVideoParameterSet)\<close>

text \<open>\<open>enum ScalabilityMaskIndex\<close>, \<open>enum AuxId\<close> and \<open>MAX_LAYERS\<close>.\<close>

definition AUX_ID :: nat where "AUX_ID = 15 - 3"
definition AUX_ALPHA :: "8 word" where "AUX_ALPHA = 1"
definition MAX_LAYERS :: nat where "MAX_LAYERS = 63"

text \<open>
  \<open>struct VideoParameterSet\<close> and its nested \<open>struct Extension\<close>, whose member
  \<open>general_level_idc\<close> is renamed. The arrays \<open>layer_id_in_nuh[MAX_LAYERS]\<close> and
  \<open>dimension_id[MAX_LAYERS][16]\<close> are functions of the index; a write at a layer index of
  \<open>MAX_LAYERS\<close> or more is past the end of the arrays and is the outcome \<open>None\<close> of the
  decoder.
\<close>

record VideoParameterSet_Extension =
  layer_id_in_nuh :: "nat \<Rightarrow> 8 word"
  dimension_id :: "nat \<Rightarrow> nat \<Rightarrow> 8 word"
  extension_general_level_idc :: "8 word"

record VideoParameterSet =
  profile_tier_level :: ProfileTierLevel
  extension :: VideoParameterSet_Extension
  vps_video_parameter_set_id :: "8 word"
  vps_max_layers_minus1 :: "8 word"
  vps_max_sub_layers_minus1 :: "8 word"
  vps_sub_layer_ordering_info_present_flag :: "8 word"
  vps_max_layer_id :: "8 word"
  vps_num_layer_sets_minus1 :: "8 word"
  vps_timing_info_present_flag :: "8 word"
  vps_extension_flag :: "8 word"

text \<open>
  The loop \<open>do { index = __builtin_ctz(mask_flags); \<dots>; mask_flags ^= 1 << index; }
  while (mask_flags)\<close>, which the decoder runs twice over the set bits of
  \<open>scalability_mask_flags\<close>, with the loop body as a parameter. It terminates because every
  iteration clears the lowest set bit.
\<close>

function mask_flags_loop :: "(nat \<Rightarrow> 's \<Rightarrow> 's) \<Rightarrow> 32 word \<Rightarrow> 's \<Rightarrow> 's" where
  "mask_flags_loop body mask_flags s =
    (let index = ctz mask_flags;
         s1 = body index s;
         mask_flags1 = mask_flags XOR push_bit index 1
     in if mask_flags1 \<noteq> 0 then mask_flags_loop body mask_flags1 s1 else s1)"
  by pat_completeness auto
termination
proof (relation "measure (\<lambda>(body, mask_flags, s). unat mask_flags)")
  show "wf (measure (\<lambda>(body, mask_flags, s). unat mask_flags))" by simp
next
  fix body :: "nat \<Rightarrow> 's \<Rightarrow> 's" and mask_flags mask_flags1 :: "32 word" and s s1 :: 's and index
  assume index: "index = ctz mask_flags"
    and mf: "mask_flags1 = mask_flags XOR push_bit index 1" "mask_flags1 \<noteq> 0"
  let ?xs = "map (bit mask_flags) [0..<LENGTH(32)]"
  have nz: "mask_flags \<noteq> 0"
  proof
    assume "mask_flags = 0"
    then have "index = 32" by (simp add: index ctz_def takeWhile_eq_all_conv [THEN iffD2])
    with mf \<open>mask_flags = 0\<close> show False by simp
  qed
  then obtain i where i: "bit mask_flags i" by (auto simp add: bit_eq_iff)
  then have "i < 32" using bit_imp_le_length [of mask_flags i] by simp
  with i have "\<exists>x \<in> set ?xs. \<not> Not x" by (auto simp add: image_iff intro!: bexI [of _ i])
  then have "takeWhile Not ?xs \<noteq> ?xs" by (simp only: takeWhile_eq_all_conv) blast
  then have "\<not> length ?xs \<le> length (takeWhile Not ?xs)"
    using takeWhile_eq_take [of Not ?xs] take_all [of ?xs "length (takeWhile Not ?xs)"] by auto
  then have lt: "length (takeWhile Not ?xs) < length ?xs" by simp
  then have "\<not> Not (?xs ! length (takeWhile Not ?xs))" by (rule nth_length_takeWhile)
  with lt have b: "bit mask_flags index" by (simp add: index ctz_def)
  have "mask_flags1 = mask_flags AND NOT (push_bit index 1)"
    unfolding mf(1) using b by (intro bit_eqI) (auto simp add: bit_simps)
  then have "mask_flags1 \<le> mask_flags" by (simp add: word_and_le2)
  moreover have "mask_flags1 \<noteq> mask_flags"
  proof
    assume "mask_flags1 = mask_flags"
    then have "bit mask_flags1 index = bit mask_flags index" by simp
    then show False using b bit_imp_le_length [of mask_flags index] by (simp add: mf(1) bit_simps)
  qed
  ultimately have "mask_flags1 < mask_flags" by simp
  then show "((body, mask_flags1, s1), body, mask_flags, s)
       \<in> measure (\<lambda>(body, mask_flags, s). unat mask_flags)"
    by (simp add: word_less_nat_alt)
qed


declare mask_flags_loop.simps [simp del]

text \<open>The bodies of the two loops: \<open>dimension_id_len[index] = GetBits(3) + 1\<close> and
  \<open>dimension_id[i][index] = GetBits(dimension_id_len[index])\<close>.\<close>

definition read_dimension_id_len ::
  "memory \<Rightarrow> nat \<Rightarrow> (nat \<Rightarrow> 8 word) \<times> BitStreamReader \<Rightarrow> (nat \<Rightarrow> 8 word) \<times> BitStreamReader" where
  "read_dimension_id_len m index s =
    (let (v, r1) = (GetBits m 3 (snd s) :: 8 word \<times> BitStreamReader)
     in ((fst s) (index := v + 1), r1))"

definition read_dimension_id ::
  "memory \<Rightarrow> (nat \<Rightarrow> 8 word) \<Rightarrow> nat \<Rightarrow> nat \<Rightarrow>
   VideoParameterSet_Extension \<times> BitStreamReader \<Rightarrow> VideoParameterSet_Extension \<times> BitStreamReader" where
  "read_dimension_id m dimension_id_len i index s =
    (let (v, r1) = (GetBits m (ucast (dimension_id_len index)) (snd s) :: 8 word \<times> BitStreamReader)
     in ((fst s) \<lparr> dimension_id := (dimension_id (fst s)) (i := (dimension_id (fst s) i) (index := v)) \<rparr>,
         r1))"

text \<open>The loop \<open>for (i = 1; i <= vps_max_layers_minus1; ++i)\<close> over the list of its indices.\<close>

fun vps_layers_loop ::
  "memory \<Rightarrow> 8 word \<Rightarrow> 32 word \<Rightarrow> (nat \<Rightarrow> 8 word) \<Rightarrow> nat list \<Rightarrow>
   VideoParameterSet_Extension \<times> BitStreamReader \<Rightarrow>
   (VideoParameterSet_Extension \<times> BitStreamReader) option" where
  "vps_layers_loop m present_flag mask_flags dimension_id_len [] s = Some s"
| "vps_layers_loop m present_flag mask_flags dimension_id_len (i # layers) s =
    (if MAX_LAYERS \<le> i then None
     else
       let (id, r1) = (if present_flag \<noteq> 0 then (GetBits m 6 (snd s) :: 8 word \<times> BitStreamReader)
                       else (of_nat i, snd s));
           ext1 = (fst s) \<lparr> layer_id_in_nuh := (layer_id_in_nuh (fst s)) (i := id) \<rparr>;
           s2 = (if mask_flags \<noteq> 0
                 then mask_flags_loop (read_dimension_id m dimension_id_len i) mask_flags (ext1, r1)
                 else (ext1, r1))
       in vps_layers_loop m present_flag mask_flags dimension_id_len layers s2)"

text \<open>
  The decoder in three parts, each continuing in the next: the block
  \<open>if (vps->vps_extension_flag) { \<dots> }\<close> from \<open>SkipToByteBoundary\<close> on
  (\<open>vps_extension\<close>), the fields read through the bit-stream reader from
  \<open>vps_sub_layer_ordering_info_present_flag\<close> to \<open>vps_extension_flag\<close> (\<open>vps_body\<close>), and
  the fixed header with the profile, tier and level (\<open>DecodeVideoParameterSet\<close>). The
  result is the return value and \<open>vps_\<close>.
\<close>

definition vps_extension ::
  "memory \<Rightarrow> VideoParameterSet \<Rightarrow> BitStreamReader \<Rightarrow> (int \<times> VideoParameterSet) option" where
  "vps_extension m vps r =
    (let r1 = SkipToByteBoundary r;
         (level, r2) = (GetBits m 8 r1 :: 8 word \<times> BitStreamReader);
         vps1 = vps \<lparr> extension := (extension vps) \<lparr> extension_general_level_idc := level \<rparr> \<rparr>;
         (splitting_flag, r3) = (GetBit m r2 :: 8 word \<times> BitStreamReader)
     in if splitting_flag \<noteq> 0 then Some (0, vps1)
        else
          let (scalability_mask_flags, r4) = (GetBits m 16 r3 :: 32 word \<times> BitStreamReader);
              (dimension_id_len, r5) =
                 (if scalability_mask_flags \<noteq> 0
                  then mask_flags_loop (read_dimension_id_len m) scalability_mask_flags (\<lambda>_. 0, r4)
                  else (\<lambda>_. 0, r4));
              (vps_nuh_layer_id_present_flag, r6) = (GetBit m r5 :: 8 word \<times> BitStreamReader)
          in case vps_layers_loop m vps_nuh_layer_id_present_flag scalability_mask_flags
                    dimension_id_len [1 ..< Suc (unat (vps_max_layers_minus1 vps1))]
                    (extension vps1, r6) of
               None \<Rightarrow> None
             | Some (ext, r7) \<Rightarrow>
                 let vps2 = vps1 \<lparr> extension := ext \<rparr>;
                     alpha_layer_id_in_nuh = layer_id_in_nuh ext 1
                 in if alpha_layer_id_in_nuh > 1 \<or>
                       dimension_id ext (unat alpha_layer_id_in_nuh) AUX_ID \<noteq> AUX_ALPHA
                    then Some (0, vps2)
                    else Some (1, vps2))"

definition vps_body ::
  "memory \<Rightarrow> VideoParameterSet \<Rightarrow> BitStreamReader \<Rightarrow> (int \<times> VideoParameterSet) option" where
  "vps_body m vps r =
    (let (ordering, r1) = (GetBit m r :: 8 word \<times> BitStreamReader);
         vps1 = vps \<lparr> vps_sub_layer_ordering_info_present_flag := ordering \<rparr>
     in if ordering \<noteq> 0 then Some (0, vps1)
        else
          let r2 = SkipGolomb m (SkipGolomb m (SkipGolomb m r1));
              (max_layer_id, r3) = (GetBits m 6 r2 :: 8 word \<times> BitStreamReader);
              (num_layer_sets_minus1, r4) = (GetGolomb m r3 :: 8 word \<times> BitStreamReader);
              vps2 = vps1 \<lparr> vps_max_layer_id := max_layer_id,
                             vps_num_layer_sets_minus1 := num_layer_sets_minus1 \<rparr>;
              skip_bits = num_layer_sets_minus1 * max_layer_id;
              r5 = (if skip_bits > 0 then SkipBits m (ucast skip_bits) r4 else r4);
              (timing, r6) = (GetBit m r5 :: 8 word \<times> BitStreamReader);
              vps3 = vps2 \<lparr> vps_timing_info_present_flag := timing \<rparr>;
              (hrd, r7) =
                (if timing \<noteq> 0
                 then let r61 = SkipBits m 32 (SkipBits m 32 r6);
                          (poc_flag, r62) = (GetBit m r61 :: 8 word \<times> BitStreamReader);
                          r63 = (if poc_flag \<noteq> 0 then SkipGolomb m r62 else r62)
                      in (GetGolomb m r63 :: 32 word \<times> BitStreamReader)
                 else (0, r6))
          in if hrd \<noteq> 0 then Some (0, vps3)
             else
               let (ext_flag, r8) = (GetBit m r7 :: 8 word \<times> BitStreamReader);
                   vps4 = vps3 \<lparr> vps_extension_flag := ext_flag \<rparr>
               in if ext_flag \<noteq> 0 then vps_extension m vps4 r8 else Some (1, vps4))"

definition DecodeVideoParameterSet ::
  "memory \<Rightarrow> VideoParameterSet \<Rightarrow> nat \<Rightarrow> nat \<Rightarrow> (int \<times> VideoParameterSet) option" where
  "DecodeVideoParameterSet m vps rbsp_data rbsp_size =
    (if rbsp_size < 2 + 4 + 12 then Some (0, vps)
     else
       let rbsp_data2 = (ucast (LoadUINT16BE m (rbsp_data + 2)) :: 32 word);
           vps1 = vps \<lparr> vps_video_parameter_set_id := ucast (drop_bit 12 rbsp_data2),
                          vps_max_layers_minus1 := ucast (BitExtractUINT32 rbsp_data2 4 6),
                          vps_max_sub_layers_minus1 := ucast (BitExtractUINT32 rbsp_data2 1 3) \<rparr>
       in if vps_max_sub_layers_minus1 vps1 > 0 then Some (0, vps1)
          else
            case ParseProfileTierLevel m (rbsp_data + 6) (rbsp_data + rbsp_size)
                   (ucast (vps_max_sub_layers_minus1 vps1)) (profile_tier_level vps1) of
              (None, ptl) \<Rightarrow> Some (0, vps1 \<lparr> profile_tier_level := ptl \<rparr>)
            | (Some rbsp_top, ptl) \<Rightarrow>
                vps_body m (vps1 \<lparr> profile_tier_level := ptl \<rparr>)
                  (Initialize m rbsp_top (rbsp_data + rbsp_size)))"

text \<open>
  \<open>vps_\<close> after \<open>Decoder::Initialize\<close>, and three VPS RBSPs. Each is a NAL header, the fixed
  header with \<open>vps_max_layers_minus1 = 1\<close>, a profile, tier and level, and the bits read
  through the reader. \<open>vps_alpha_rbsp\<close> ends in the byte sequence
  \<open>11 C0 BF 78 08 00 08 30 28 52 00 00 00 00 65 20\<close> of the comment in the source.

  In \<open>vps_skip59_rbsp\<close> the reader part is: \<open>vps_sub_layer_ordering_info_present_flag = 0\<close>,
  three Exp-Golomb codes \<open>1\<close>, \<open>vps_max_layer_id = 59\<close> (6 bits), \<open>vps_num_layer_sets_minus1 = 1\<close>
  (\<open>010\<close>), 59 bits \<open>layer_id_included_flag\<close>, which end with byte 26 of the RBSP,
  \<open>vps_timing_info_present_flag = 0\<close>, \<open>vps_extension_flag = 1\<close> (bit 1 of byte 27, bit 217
  of the RBSP), six alignment bits, and the extension of \<open>vps_alpha_rbsp\<close> with the
  \<open>dimension_id\<close> of layer 1 changed from 1 (\<open>AUX_ALPHA\<close>) to 0. \<open>vps_skip58_rbsp\<close> is the same
  with \<open>vps_max_layer_id = 58\<close> and 58 bits \<open>layer_id_included_flag\<close>.
  \<open>alpha_dimension_id\<close> is the entry
  \<open>extension->dimension_id[extension->layer_id_in_nuh[1]][AUX_ID]\<close> of a VPS.
\<close>

definition vps_zero :: VideoParameterSet where
  "vps_zero = \<lparr> profile_tier_level = ptl_zero,
     extension = \<lparr> layer_id_in_nuh = (\<lambda>_. 0), dimension_id = (\<lambda>_ _. 0),
                   extension_general_level_idc = 0 \<rparr>,
     vps_video_parameter_set_id = 0, vps_max_layers_minus1 = 0, vps_max_sub_layers_minus1 = 0,
     vps_sub_layer_ordering_info_present_flag = 0, vps_max_layer_id = 0,
     vps_num_layer_sets_minus1 = 0, vps_timing_info_present_flag = 0, vps_extension_flag = 0 \<rparr>"

definition vps_alpha_rbsp :: "8 word list" where
  "vps_alpha_rbsp =
     [0x40, 0x01, 0x0C, 0x11, 0xFF, 0xFF,
      0x01, 0x60, 0x00, 0x00, 0x00, 0x90, 0x00, 0x00, 0x00, 0x00, 0x00, 0x78,
      0x11, 0xC0, 0xBF, 0x78, 0x08, 0x00, 0x08, 0x30, 0x28, 0x52, 0x00, 0x00, 0x00, 0x00,
      0x65, 0x20]"

definition vps_skip59_rbsp :: "8 word list" where
  "vps_skip59_rbsp =
     [0x40, 0x01, 0x0C, 0x11, 0xFF, 0xFF,
      0x01, 0x60, 0x00, 0x00, 0x00, 0x90, 0x00, 0x00, 0x00, 0x00, 0x00, 0x78,
      0x7E, 0xD0, 0x00, 0x00, 0x00, 0x00, 0x00, 0x00, 0x00, 0x7F,
      0x78, 0x08, 0x00, 0x08, 0x20]"

definition vps_skip58_rbsp :: "8 word list" where
  "vps_skip58_rbsp =
     [0x40, 0x01, 0x0C, 0x11, 0xFF, 0xFF,
      0x01, 0x60, 0x00, 0x00, 0x00, 0x90, 0x00, 0x00, 0x00, 0x00, 0x00, 0x78,
      0x7E, 0x90, 0x00, 0x00, 0x00, 0x00, 0x00, 0x00, 0x00, 0xFF,
      0x78, 0x08, 0x00, 0x08, 0x20]"

definition alpha_dimension_id :: "VideoParameterSet \<Rightarrow> 8 word" where
  "alpha_dimension_id vps =
     dimension_id (extension vps) (unat (layer_id_in_nuh (extension vps) 1)) AUX_ID"

section \<open>Emulation prevention (hevc/decoder.cc, Decoder::ExtractRBSP)\<close>

text \<open>
  The 64-bit path of \<open>ExtractRBSP\<close>. Each round loads eight bytes as a little-endian word,
  so byte \<open>i\<close> of the chunk is bits \<open>8 * i\<close> to \<open>8 * i + 7\<close> of the word, and builds masks
  whose bit \<open>8 * i\<close> tells whether byte \<open>i\<close> is 0x00 (\<open>mask_eq_00\<close>) or at most 0x03
  (\<open>mask_le_03\<close>). \<open>last_mask_eq_00\<close> carries the mask of the preceding chunk. The output
  buffer is a memory of its own; \<open>StoreUINT64LE\<close> always writes eight bytes.
\<close>

definition StoreUINT64LE :: "memory \<Rightarrow> nat \<Rightarrow> 64 word \<Rightarrow> memory" where
  "StoreUINT64LE out p w =
     out (p := ucast w, p + 1 := ucast (drop_bit 8 w), p + 2 := ucast (drop_bit 16 w),
          p + 3 := ucast (drop_bit 24 w), p + 4 := ucast (drop_bit 32 w),
          p + 5 := ucast (drop_bit 40 w), p + 6 := ucast (drop_bit 48 w),
          p + 7 := ucast (drop_bit 56 w))"

definition mask_eq_00_of :: "64 word \<Rightarrow> 64 word" where
  "mask_eq_00_of data_word =
    (let mask_eq_00 = data_word OR drop_bit 1 data_word;
         mask_eq_00 = mask_eq_00 OR drop_bit 2 mask_eq_00;
         mask_eq_00 = mask_eq_00 OR drop_bit 4 mask_eq_00
     in NOT mask_eq_00)"

definition mask_le_03_of :: "64 word \<Rightarrow> 64 word" where
  "mask_le_03_of data_word =
    (let mask_eq_00 = data_word OR drop_bit 1 data_word;
         mask_le_03 = mask_eq_00 AND NOT 0x0101010101010101;
         mask_le_03 = mask_le_03 OR drop_bit 2 mask_le_03;
         mask_le_03 = mask_le_03 OR drop_bit 4 mask_le_03
     in NOT mask_le_03)"

text \<open>Bit \<open>8 * i\<close> of \<open>mask_le_000003\<close> is set when byte \<open>i\<close> is at most 0x03 and the two bytes
  before it, in this chunk or the preceding one, are 0x00. On a last chunk of fewer than eight
  bytes the mask is cut to the bytes of the chunk.\<close>

definition mask_le_000003_of :: "64 word \<Rightarrow> 64 word \<Rightarrow> 64 word \<Rightarrow> 64 word" where
  "mask_le_000003_of data_word last_mask_eq_00 data_size =
    (let mask_eq_00 = mask_eq_00_of data_word;
         mask_le_03 = mask_le_03_of data_word;
         mask_eq_00xxxx = push_bit 16 mask_eq_00 OR drop_bit (64 - 16) last_mask_eq_00;
         mask_eq_00xx = push_bit 8 mask_eq_00 OR drop_bit (64 - 8) last_mask_eq_00;
         mask_le_000003 = mask_eq_00xxxx AND mask_eq_00xx AND mask_le_03 AND 0x0101010101010101
     in if data_size < 8
        then mask_le_000003 AND (push_bit (unat (push_bit 3 data_size)) 1 - 1)
        else mask_le_000003)"

text \<open>The inner \<open>do ... while (mask_le_000003)\<close>: store the word, keep the bytes below the
  next marked one, and shift the marked byte out of the word and the mask.\<close>

function rbsp_write_loop ::
  "64 word \<Rightarrow> 64 word \<Rightarrow> 64 word \<Rightarrow> memory \<Rightarrow> nat \<Rightarrow> 64 word \<times> 64 word \<times> memory \<times> nat" where
  "rbsp_write_loop mask_le_000003 data_word data_size out rbsp_end =
    (let index = drop_bit 3 (of_nat (ctz mask_le_000003) :: 32 word);
         out1 = StoreUINT64LE out rbsp_end data_word;
         rbsp_end1 = rbsp_end + unat index;
         shift = push_bit 3 index;
         mask1 = drop_bit 8 (drop_bit (unat shift) mask_le_000003);
         data_word1 = drop_bit 8 (drop_bit (unat shift) data_word);
         data_size1 = data_size - (ucast index + 1)
     in if mask1 \<noteq> 0 then rbsp_write_loop mask1 data_word1 data_size1 out1 rbsp_end1
        else (data_word1, data_size1, out1, rbsp_end1))"
  by pat_completeness auto
termination
proof (relation "measure (\<lambda>(mask_le_000003, data_word, data_size, out, rbsp_end). unat mask_le_000003)")
  show "wf (measure (\<lambda>(mask_le_000003, data_word, data_size, out, rbsp_end). unat mask_le_000003))"
    by simp
next
  fix mask_le_000003 data_word data_size :: "64 word" and out :: memory and rbsp_end :: nat
    and index shift :: "32 word" and out1 rbsp_end1 and mask1 data_word1 data_size1 :: "64 word"
  assume m: "mask1 = drop_bit 8 (drop_bit (unat shift) mask_le_000003)" "mask1 \<noteq> 0"
  have "unat mask1 = unat mask_le_000003 div 2 ^ unat shift div 2 ^ 8"
    unfolding m(1) unat_drop_bit_eq by (simp only: drop_bit_eq_div)
  also have "\<dots> \<le> unat mask_le_000003 div 2 ^ 8"
    by (intro div_le_mono) simp
  finally have le: "unat mask1 \<le> unat mask_le_000003 div 256" by simp
  have "unat mask1 \<noteq> 0" using m(2) by (simp add: unat_eq_zero)
  with le have "unat mask1 < unat mask_le_000003" by (cases "unat mask_le_000003 = 0") auto
  then show "((mask1, data_word1, data_size1, out1, rbsp_end1),
              mask_le_000003, data_word, data_size, out, rbsp_end)
       \<in> measure (\<lambda>(mask_le_000003, data_word, data_size, out, rbsp_end). unat mask_le_000003)"
    by simp
qed

declare rbsp_write_loop.simps [simp del]

text \<open>The outer \<open>do ... while (size > 0)\<close>. A chunk with a marked byte is written by the inner
  loop, which the code enters with \<open>data_size = sizeof(uint64_t)\<close> whatever the size of the
  chunk.\<close>

function ExtractRBSP_loop ::
  "memory \<Rightarrow> nat \<Rightarrow> nat \<Rightarrow> 64 word \<Rightarrow> memory \<Rightarrow> nat \<Rightarrow> memory \<times> nat" where
  "ExtractRBSP_loop m data sz last_mask_eq_00 out rbsp_end =
    (let data_word = LoadUINT64LE m data;
         data_size = (if 8 < sz then 8 else sz);
         mask_le_000003 = mask_le_000003_of data_word last_mask_eq_00 (of_nat data_size);
         data1 = data + data_size;
         sz1 = sz - data_size;
         last1 = mask_eq_00_of data_word;
         (out1, rbsp_end1) =
           (if mask_le_000003 = 0
            then (StoreUINT64LE out rbsp_end data_word, rbsp_end + data_size)
            else
              let (data_word2, data_size2, out2, rbsp_end2) =
                    rbsp_write_loop mask_le_000003 data_word 8 out rbsp_end
              in if data_size2 > 0
                 then (StoreUINT64LE out2 rbsp_end2 data_word2, rbsp_end2 + unat data_size2)
                 else (out2, rbsp_end2))
     in if sz1 > 0 then ExtractRBSP_loop m data1 sz1 last1 out1 rbsp_end1
        else (out1, rbsp_end1))"
  by pat_completeness auto
termination
  by (relation "measure (\<lambda>(m, data, sz, last_mask_eq_00, out, rbsp_end). sz)") auto

declare ExtractRBSP_loop.simps [simp del]

text \<open>\<open>ExtractRBSP\<close> returns the number of bytes written, \<open>rbsp_end - rbsp_top\<close>, and leaves
  the output in the buffer; \<open>rbsp_bytes\<close> is that output as a list.\<close>

definition ExtractRBSP :: "memory \<Rightarrow> nat \<Rightarrow> nat \<Rightarrow> memory \<Rightarrow> nat \<Rightarrow> nat \<times> memory" where
  "ExtractRBSP m data sz out rbsp =
    (let (out1, rbsp_end) = ExtractRBSP_loop m data sz 0 out rbsp in (rbsp_end - rbsp, out1))"

definition rbsp_bytes :: "memory \<Rightarrow> nat \<Rightarrow> nat \<Rightarrow> memory \<Rightarrow> nat \<Rightarrow> 8 word list" where
  "rbsp_bytes m data sz out rbsp =
    (let (n, out1) = ExtractRBSP m data sz out rbsp in map (\<lambda>i. out1 (rbsp + i)) [0..<n])"

text \<open>A stream in which the three bytes \<open>00 00 03\<close> are followed by five more bytes; the
  first three bytes are the input of \<open>ExtractRBSP\<close>.\<close>

definition rbsp_short_input :: "8 word list" where
  "rbsp_short_input = [0x00, 0x00, 0x03, 0xAA, 0xBB, 0xCC, 0xDD, 0xEE]"

section \<open>Parameter sets and the hvcC configuration (hevc/decoder.cc)\<close>

definition NAL_VPS :: "8 word" where "NAL_VPS = 32"
definition NAL_SPS :: "8 word" where "NAL_SPS = 33"
definition NAL_PPS :: "8 word" where "NAL_PPS = 34"
definition NAL_SEI_PREFIX :: "8 word" where "NAL_SEI_PREFIX = 39"

text \<open>The fields of the sequence and picture parameter sets the decoder keeps. The decoder
  owns one VPS, two SPSs, two PPSs, the alpha information and the 256-byte RBSP spool
  \<open>rbsp_data_\<close>, which is a memory of its own.\<close>

record SequenceParameterSet =
  sps_profile_tier_level :: ProfileTierLevel
  pic_width_in_luma_samples :: "16 word"
  pic_height_in_luma_samples :: "16 word"
  sps_video_parameter_set_id :: "8 word"
  sps_max_sub_layers_minus1 :: "8 word"
  sps_seq_parameter_set_id :: "8 word"
  chroma_format_idc :: "8 word"
  separate_colour_plane_flag :: "8 word"
  bit_depth_luma :: "8 word"
  bit_depth_chroma :: "8 word"
  log2_max_pic_order_cnt_lsb :: "8 word"

record PictureParameterSet =
  pps_pic_parameter_set_id :: "8 word"
  pps_seq_parameter_set_id :: "8 word"
  dependent_slice_segments_enabled_flag :: "8 word"
  output_flag_present_flag :: "8 word"
  num_extra_slice_header_bits :: "8 word"

record Decoder =
  dec_vps :: VideoParameterSet
  dec_sps :: "nat \<Rightarrow> SequenceParameterSet"
  dec_pps :: "nat \<Rightarrow> PictureParameterSet"
  dec_alpha :: AlphaChannelInformation
  dec_rbsp_data :: memory

text \<open>\<open>DecodeSequenceParameterSet\<close>: the fields read after the SPS id (\<open>sps_fields\<close>) are
  written into \<open>sps_[sps_seq_parameter_set_id]\<close>.\<close>

definition sps_fields ::
  "memory \<Rightarrow> SequenceParameterSet \<Rightarrow> BitStreamReader \<Rightarrow> SequenceParameterSet" where
  "sps_fields m s r =
    (let (chroma, r1) = (GetGolomb m r :: 8 word \<times> BitStreamReader);
         s1 = s \<lparr> chroma_format_idc := chroma \<rparr>;
         (s2, r2) =
           (if chroma = 3
            then let (flag, r11) = (GetBit m r1 :: 8 word \<times> BitStreamReader);
                     s11 = s1 \<lparr> separate_colour_plane_flag := flag \<rparr>
                 in (if flag \<noteq> 0 then s11 \<lparr> chroma_format_idc := 0 \<rparr> else s11, r11)
            else (s1, r1));
         (width, r3) = (GetGolomb m r2 :: 16 word \<times> BitStreamReader);
         (height, r4) = (GetGolomb m r3 :: 16 word \<times> BitStreamReader);
         (conformance_window_flag, r5) = (GetBit m r4 :: 8 word \<times> BitStreamReader);
         r6 = (if conformance_window_flag \<noteq> 0
               then SkipGolomb m (SkipGolomb m (SkipGolomb m (SkipGolomb m r5))) else r5);
         (luma, r7) = (GetGolomb m r6 :: 8 word \<times> BitStreamReader);
         (chroma_depth, r8) = (GetGolomb m r7 :: 8 word \<times> BitStreamReader);
         (poc, r9) = (GetGolomb m r8 :: 8 word \<times> BitStreamReader)
     in s2 \<lparr> pic_width_in_luma_samples := width, pic_height_in_luma_samples := height,
             bit_depth_luma := luma + 8, bit_depth_chroma := chroma_depth + 8,
             log2_max_pic_order_cnt_lsb := poc + 4 \<rparr>)"

definition DecodeSequenceParameterSet ::
  "memory \<Rightarrow> (nat \<Rightarrow> SequenceParameterSet) \<Rightarrow> nat \<Rightarrow> nat \<Rightarrow> nat \<Rightarrow>
   int \<times> (nat \<Rightarrow> SequenceParameterSet)" where
  "DecodeSequenceParameterSet m sps_tbl rbsp_data rbsp_size index =
    (if rbsp_size < 2 + 1 + 12 then (0, sps_tbl)
     else
       let rbsp_data2 = m (rbsp_data + 2);
           video_parameter_set_id = drop_bit 4 rbsp_data2;
           max_sub_layers_minus1 = (ucast (BitExtractUINT32 (ucast rbsp_data2) 1 3) :: 8 word)
       in case ParseProfileTierLevel m (rbsp_data + 3) (rbsp_data + rbsp_size)
                 (ucast max_sub_layers_minus1) ptl_zero of
            (None, ptl) \<Rightarrow> (0, sps_tbl)
          | (Some rbsp_top, ptl) \<Rightarrow>
              let (id, r) = (GetGolomb m (Initialize m rbsp_top (rbsp_data + rbsp_size))
                               :: 8 word \<times> BitStreamReader)
              in if 2 \<le> unat id then (0, sps_tbl)
                 else
                   (1, sps_tbl (unat id :=
                      sps_fields m
                        ((sps_tbl (unat id))
                           \<lparr> sps_video_parameter_set_id := video_parameter_set_id,
                             sps_max_sub_layers_minus1 := max_sub_layers_minus1,
                             sps_profile_tier_level := ptl,
                             sps_seq_parameter_set_id := id \<rparr>) r)))"

definition DecodePictureParameterSet ::
  "memory \<Rightarrow> (nat \<Rightarrow> PictureParameterSet) \<Rightarrow> nat \<Rightarrow> nat \<Rightarrow> nat \<Rightarrow>
   int \<times> (nat \<Rightarrow> PictureParameterSet)" where
  "DecodePictureParameterSet m pps_tbl rbsp_data rbsp_size index =
    (let (id, r1) = (GetGolomb m (Initialize m (rbsp_data + 2) (rbsp_data + rbsp_size))
                       :: 8 word \<times> BitStreamReader)
     in if 2 \<le> unat id then (0, pps_tbl)
        else
          let (seq_id, r2) = (GetGolomb m r1 :: 8 word \<times> BitStreamReader);
              (dependent, r3) = (GetBit m r2 :: 8 word \<times> BitStreamReader);
              (output_flag, r4) = (GetBit m r3 :: 8 word \<times> BitStreamReader);
              (extra_bits, r5) = (GetBits m 3 r4 :: 8 word \<times> BitStreamReader)
          in (1, pps_tbl (unat id :=
                (pps_tbl (unat id))
                  \<lparr> pps_pic_parameter_set_id := id, pps_seq_parameter_set_id := seq_id,
                    dependent_slice_segments_enabled_flag := dependent,
                    output_flag_present_flag := output_flag,
                    num_extra_slice_header_bits := extra_bits \<rparr>)))"

text \<open>
  \<open>DecodeHEVCDecoderConfiguration\<close>. The payload of the \<open>hvcC\<close> extension is the range from
  \<open>hvcc_start\<close> (\<open>extension->GetExtraData()\<close>) to \<open>hvcc_end\<close> (\<open>extension->GetNext()\<close>); the two
  accessors are declared in mov/atom.h, so the range is a parameter here. \<open>decode_nal_units\<close>
  is the test of the NAL unit type against the set VPS, SPS, PPS, SEI_PREFIX; \<open>decode_nal_unit\<close>
  is the dispatch on the type, in which the result of the SEI decoder is not assigned to
  \<open>result\<close>. The loops return \<open>None\<close> where the VPS decoder writes outside its arrays.
\<close>

definition decode_nal_units :: "8 word \<Rightarrow> bool" where
  "decode_nal_units nal_unit_type \<longleftrightarrow>
     drop_bit (unat nal_unit_type)
       (push_bit (unat NAL_VPS) 1 OR push_bit (unat NAL_SPS) 1 OR push_bit (unat NAL_PPS) 1 OR
        push_bit (unat NAL_SEI_PREFIX) (1 :: 64 word)) AND 1 \<noteq> 0"

definition decode_nal_unit ::
  "8 word \<Rightarrow> nat \<Rightarrow> nat \<Rightarrow> Decoder \<Rightarrow> (int \<times> Decoder) option" where
  "decode_nal_unit nal_unit_type rbsp_size i dec =
    (if nal_unit_type = NAL_VPS then
       map_option (\<lambda>(result, v). (result, dec \<lparr> dec_vps := v \<rparr>))
         (DecodeVideoParameterSet (dec_rbsp_data dec) (dec_vps dec) 0 rbsp_size)
     else if nal_unit_type = NAL_SPS then
       (case DecodeSequenceParameterSet (dec_rbsp_data dec) (dec_sps dec) 0 rbsp_size i of
          (result, s) \<Rightarrow> Some (result, dec \<lparr> dec_sps := s \<rparr>))
     else if nal_unit_type = NAL_PPS then
       (case DecodePictureParameterSet (dec_rbsp_data dec) (dec_pps dec) 0 rbsp_size i of
          (result, p) \<Rightarrow> Some (result, dec \<lparr> dec_pps := p \<rparr>))
     else
       (case DecodeSupplementalEnhancementInformation (dec_rbsp_data dec) (dec_alpha dec) 0 rbsp_size of
          (ignored, a) \<Rightarrow> Some (1, dec \<lparr> dec_alpha := a \<rparr>)))"

text \<open>The \<open>for\<close> loop over the NAL units of one array: \<open>Inl\<close> is \<open>return 0\<close>, \<open>Inr\<close> carries the
  address after the last unit.\<close>

fun nal_units_loop ::
  "memory \<Rightarrow> 8 word \<Rightarrow> nat \<Rightarrow> nat \<Rightarrow> nat \<Rightarrow> nat \<Rightarrow> Decoder \<Rightarrow>
   (Decoder + nat \<times> Decoder) option" where
  "nal_units_loop m nal_unit_type 0 i nal_unit_start nal_unit_end dec =
     Some (Inr (nal_unit_start, dec))"
| "nal_units_loop m nal_unit_type (Suc k) i nal_unit_start nal_unit_end dec =
    (if int nal_unit_end - int nal_unit_start < 2 then Some (Inl dec)
     else if int nal_unit_end - int nal_unit_start < sint (ucast (LoadUINT16BE m nal_unit_start) :: 64 word)
     then Some (Inl dec)
     else if decode_nal_units nal_unit_type then
       (if 256 \<le> unat (LoadUINT16BE m nal_unit_start) then Some (Inl dec)
        else
          case ExtractRBSP m (nal_unit_start + 2) (unat (LoadUINT16BE m nal_unit_start))
                 (dec_rbsp_data dec) 0 of
            (rbsp_size, rbsp) \<Rightarrow>
              (case decode_nal_unit nal_unit_type rbsp_size i (dec \<lparr> dec_rbsp_data := rbsp \<rparr>) of
                 None \<Rightarrow> None
               | Some (result, dec1) \<Rightarrow>
                   if result = 0 then Some (Inl dec1)
                   else nal_units_loop m nal_unit_type k (i + 1)
                          (nal_unit_start + 2 + unat (LoadUINT16BE m nal_unit_start))
                          nal_unit_end dec1))
     else nal_units_loop m nal_unit_type k (i + 1)
            (nal_unit_start + 2 + unat (LoadUINT16BE m nal_unit_start)) nal_unit_end dec)"

text \<open>The \<open>do ... while (--number_of_arrays > 0)\<close> loop over the arrays.\<close>

fun nal_unit_arrays_loop ::
  "memory \<Rightarrow> nat \<Rightarrow> nat \<Rightarrow> nat \<Rightarrow> Decoder \<Rightarrow> (int \<times> Decoder) option" where
  "nal_unit_arrays_loop m 0 array_start array_end dec = Some (1, dec)"
| "nal_unit_arrays_loop m (Suc k) array_start array_end dec =
    (if int array_end - int array_start < 1 + 2 then Some (0, dec)
     else
       case nal_units_loop m (m array_start AND 0x3f) (unat (LoadUINT16BE m (array_start + 1))) 0
              (array_start + 1 + 2) array_end dec of
         None \<Rightarrow> None
       | Some (Inl dec1) \<Rightarrow> Some (0, dec1)
       | Some (Inr (nal_unit_start, dec1)) \<Rightarrow>
           nal_unit_arrays_loop m k nal_unit_start array_end dec1)"

definition DecodeHEVCDecoderConfiguration ::
  "memory \<Rightarrow> Decoder \<Rightarrow> nat \<Rightarrow> nat \<Rightarrow> (int \<times> Decoder) option" where
  "DecodeHEVCDecoderConfiguration m dec hvcc_start hvcc_end =
    (if int hvcc_end - int hvcc_start < 21 + 1 then Some (0, dec)
     else if unat (m (hvcc_start + (21 + 1))) < 3 then Some (0, dec)
     else nal_unit_arrays_loop m (unat (m (hvcc_start + (21 + 1))))
            (hvcc_start + (21 + 1 + 1)) hvcc_end dec)"

text \<open>
  The decoder after \<open>Initialize\<close>, and three payloads. In \<open>hvcc_failing_sei\<close> the first array
  holds one SEI_PREFIX unit \<open>4E 01 FF 00\<close>, whose payload type is 0xFF. In \<open>hvcc_nal_overrun\<close>
  the third array holds one PPS unit of declared length 4 of which only two bytes lie in the
  36-byte payload.
\<close>

definition decoder_zero :: Decoder where
  "decoder_zero = \<lparr> dec_vps = vps_zero,
     dec_sps = (\<lambda>_. \<lparr> sps_profile_tier_level = ptl_zero, pic_width_in_luma_samples = 0,
                   pic_height_in_luma_samples = 0, sps_video_parameter_set_id = 0,
                   sps_max_sub_layers_minus1 = 0, sps_seq_parameter_set_id = 0,
                   chroma_format_idc = 0, separate_colour_plane_flag = 0, bit_depth_luma = 0,
                   bit_depth_chroma = 0, log2_max_pic_order_cnt_lsb = 0 \<rparr>),
     dec_pps = (\<lambda>_. \<lparr> pps_pic_parameter_set_id = 0, pps_seq_parameter_set_id = 0,
                   dependent_slice_segments_enabled_flag = 0, output_flag_present_flag = 0,
                   num_extra_slice_header_bits = 0 \<rparr>),
     dec_alpha = alpha_zero, dec_rbsp_data = (\<lambda>_. 0) \<rparr>"

definition hvcc_failing_sei :: "8 word list" where
  "hvcc_failing_sei =
     [0x01, 0x01, 0x60, 0x00, 0x00, 0x00, 0x90, 0x00, 0x00, 0x00, 0x00, 0x00, 0x78,
      0xF0, 0x00, 0xFC, 0xFD, 0xF8, 0xF8, 0x00, 0x00, 0x0F, 0x03,
      0x27, 0x00, 0x01, 0x00, 0x04, 0x4E, 0x01, 0xFF, 0x00,
      0x00, 0x00, 0x00,
      0x00, 0x00, 0x00]"

definition hvcc_nal_overrun :: "8 word list" where
  "hvcc_nal_overrun =
     [0x01, 0x01, 0x60, 0x00, 0x00, 0x00, 0x90, 0x00, 0x00, 0x00, 0x00, 0x00, 0x78,
      0xF0, 0x00, 0xFC, 0xFD, 0xF8, 0xF8, 0x00, 0x00, 0x0F, 0x03,
      0x00, 0x00, 0x00,
      0x00, 0x00, 0x00,
      0x22, 0x00, 0x01, 0x00, 0x04, 0x44, 0x01]"

section \<open>The slice header (hevc/decoder.cc, Decoder::DecodeSliceHeader)\<close>

text \<open>\<open>stream_bits m p n\<close> is the number written by the \<open>n\<close> bits from position \<open>p\<close> of the
  stream, first bit most significant.\<close>

fun stream_bits :: "memory \<Rightarrow> nat \<Rightarrow> nat \<Rightarrow> nat" where
  "stream_bits m p 0 = 0"
| "stream_bits m p (Suc n) = 2 * stream_bits m p n + (if stream_bit m (p + n) then 1 else 0)"

text \<open>
  \<open>IsIDR\<close> and \<open>IsIRAP\<close> of decoder.h compare in \<open>uintptr_t\<close>, so the subtraction wraps.
  \<open>DecodeSliceHeader\<close> reads \<open>pps_[slice_pic_parameter_set_id]\<close> and
  \<open>sps_[pps->pps_seq_parameter_set_id]\<close> without a test of the index; both arrays have two
  elements, and the result is \<open>None\<close> where the code reads outside them.
\<close>

definition NAL_BLA_W_LP :: "64 word" where "NAL_BLA_W_LP = 16"
definition NAL_IDR_W_RADL :: "64 word" where "NAL_IDR_W_RADL = 19"
definition NAL_IDR_N_LP :: "64 word" where "NAL_IDR_N_LP = 20"
definition NAL_RSV_IRAP_VCL23 :: "64 word" where "NAL_RSV_IRAP_VCL23 = 23"

definition IsIDR :: "64 word \<Rightarrow> bool" where
  "IsIDR n \<longleftrightarrow> n - NAL_IDR_W_RADL \<le> NAL_IDR_N_LP - NAL_IDR_W_RADL"

definition IsIRAP :: "64 word \<Rightarrow> bool" where
  "IsIRAP n \<longleftrightarrow> n - NAL_BLA_W_LP \<le> NAL_RSV_IRAP_VCL23 - NAL_BLA_W_LP"

definition DecodeSliceHeader :: "memory \<Rightarrow> Decoder \<Rightarrow> nat \<Rightarrow> nat \<Rightarrow> 32 word option" where
  "DecodeSliceHeader m dec packet_data packet_size =
    (let data2 = (ucast (LoadUINT16BE m (packet_data + 4)) :: 32 word);
         nal_unit_type = (ucast (BitExtractUINT32 data2 9 6) :: 64 word);
         r0 = Initialize m (packet_data + (4 + 2)) (packet_data + packet_size);
         (first_slice_segment_in_pic_flag, r1) = (GetBit m r0 :: 8 word \<times> BitStreamReader);
         r2 = (if IsIRAP nal_unit_type then SkipBits m 1 r1 else r1);
         (slice_pic_parameter_set_id, r3) = (GetGolomb m r2 :: 8 word \<times> BitStreamReader)
     in if 2 \<le> unat slice_pic_parameter_set_id then None
        else
          let pps = dec_pps dec (unat slice_pic_parameter_set_id) in
          if first_slice_segment_in_pic_flag = 0 then Some 0
          else if 2 \<le> unat (pps_seq_parameter_set_id pps) then None
          else
            let sps = dec_sps dec (unat (pps_seq_parameter_set_id pps));
                r4 = SkipBits m (ucast (num_extra_slice_header_bits pps)) r3;
                r5 = SkipGolomb m r4;
                r6 = (if output_flag_present_flag pps \<noteq> 0 then SkipBits m 1 r5 else r5);
                r7 = (if separate_colour_plane_flag sps \<noteq> 0 then SkipBits m 2 r6 else r6)
            in if IsIDR nal_unit_type then Some 0
               else Some (fst (GetBits m (ucast (log2_max_pic_order_cnt_lsb sps)) r7)))"

text \<open>
  Two packets and the decoder states they are read with. \<open>slice_packet\<close> is the packet of
  the comment in \<open>DecodeSliceHeader\<close>, a TRAIL_R unit whose header is \<open>e0 26\<close>, read with
  an SPS whose picture order count has 10 bits. \<open>slice_long_type_packet\<close> is a TRAIL_R unit
  whose header has the first flag set, the PPS id 0, a slice type written with 30 leading
  zero bits (61 bits), \<open>pic_output_flag\<close>, and then the 10 bits \<open>1010101011\<close> (683) of
  \<open>slice_pic_order_cnt_lsb\<close>, which start at bit 64 of the header, bit 112 of the packet.
  It is read with a PPS whose \<open>output_flag_present_flag\<close> is set.
\<close>

definition slice_packet :: "8 word list" where
  "slice_packet = [0x00, 0x00, 0x00, 0x06, 0x02, 0x01, 0xE0, 0x26, 0x00, 0x00]"

definition slice_decoder :: Decoder where
  "slice_decoder = decoder_zero \<lparr> dec_sps :=
     (dec_sps decoder_zero) (0 := (dec_sps decoder_zero 0) \<lparr> log2_max_pic_order_cnt_lsb := 10 \<rparr>) \<rparr>"

definition slice_long_type_packet :: "8 word list" where
  "slice_long_type_packet =
     [0x00, 0x00, 0x00, 0x0C, 0x02, 0x01,
      0xC0, 0x00, 0x00, 0x00, 0x80, 0x00, 0x00, 0x01, 0xAA, 0xC0]"

definition slice_output_flag_decoder :: Decoder where
  "slice_output_flag_decoder = slice_decoder \<lparr> dec_pps :=
     (dec_pps decoder_zero) (0 := (dec_pps decoder_zero 0) \<lparr> output_flag_present_flag := 1 \<rparr>) \<rparr>"

section \<open>The sample table (hevc/decoder.cc, Decoder::InitializeSamples and Decoder::Create)\<close>

text \<open>
  The sample tables of the stream. The accessors of the \<open>stsc\<close>, \<open>stco\<close>, \<open>stsz\<close> and \<open>stts\<close>
  atoms (\<open>GetCount\<close>, \<open>GetEntry(i)->GetFirst()\<close>, \<open>GetEntry(i)->GetSamples()\<close>,
  \<open>GetOffset(i)\<close>, \<open>GetSampleSize()\<close>, \<open>GetSampleSize(i)\<close>, \<open>GetEntry(i)->GetCount()\<close>,
  \<open>GetEntry(i)->GetDuration()\<close>) are declared in mov/atom.h; what they return is a
  parameter here. An accessor reads at any index, so a table is a function of the index.
  The counters of the code are \<open>uint32_t\<close>.
\<close>

record SampleTables =
  stsc_count :: "32 word"
  stsc_first :: "nat \<Rightarrow> 32 word"
  stsc_samples :: "nat \<Rightarrow> 32 word"
  stco_count :: "32 word"
  stco_offset :: "nat \<Rightarrow> 32 word"
  stsz_sample_size :: "32 word"
  stsz_count :: "32 word"
  stsz_size :: "nat \<Rightarrow> 32 word"
  stts_count :: "32 word"
  stts_entry_count :: "nat \<Rightarrow> 32 word"
  stts_duration :: "nat \<Rightarrow> 32 word"

text \<open>The local \<open>struct Chunk\<close> of \<open>InitializeSamples\<close> and \<open>struct Sample\<close> of decoder.h.\<close>

record Chunk =
  chunk_first_sample :: "32 word"
  chunk_number_of_samples :: "32 word"
  chunk_offset :: "32 word"

record Sample =
  smp_offset :: "32 word"
  smp_size :: "32 word"
  smp_duration :: "32 word"
  smp_picture_order_count :: "32 word"

text \<open>
  The first loop of \<open>InitializeSamples\<close> walks the chunks from the last to the first;
  \<open>entry_walk\<close> is its inner \<open>while (i < first_chunk)\<close>, which steps back in the \<open>stsc\<close>
  entries and gives up (\<open>goto free_chunks\<close>) at the first entry.
\<close>

fun entry_walk :: "(nat \<Rightarrow> 32 word) \<Rightarrow> 32 word \<Rightarrow> nat \<Rightarrow> 32 word \<Rightarrow> (nat \<times> 32 word) option" where
  "entry_walk first i 0 first_chunk = (if i < first_chunk then None else Some (0, first_chunk))"
| "entry_walk first i (Suc entry) first_chunk =
     (if i < first_chunk then entry_walk first i entry (first entry)
      else Some (Suc entry, first_chunk))"

fun chunk_counts_loop ::
  "SampleTables \<Rightarrow> nat \<Rightarrow> nat \<Rightarrow> 32 word \<Rightarrow> 32 word \<Rightarrow> (nat \<Rightarrow> 32 word) \<Rightarrow>
   (32 word \<times> (nat \<Rightarrow> 32 word)) option" where
  "chunk_counts_loop t 0 entry first_chunk sample_total counts = Some (sample_total, counts)"
| "chunk_counts_loop t (Suc i) entry first_chunk sample_total counts =
     (case entry_walk (stsc_first t) (of_nat (Suc i)) entry first_chunk of
        None \<Rightarrow> None
      | Some (entry1, first_chunk1) \<Rightarrow>
          chunk_counts_loop t i entry1 first_chunk1 (sample_total + stsc_samples t entry1)
            (counts (i := stsc_samples t entry1)))"

text \<open>The second loop fills \<open>first_sample\<close> and \<open>offset\<close> of every chunk.\<close>

fun fill_chunks :: "SampleTables \<Rightarrow> (nat \<Rightarrow> 32 word) \<Rightarrow> nat \<Rightarrow> nat \<Rightarrow> 32 word \<Rightarrow> Chunk list" where
  "fill_chunks t counts 0 i first = []"
| "fill_chunks t counts (Suc k) i first =
     \<lparr> chunk_first_sample = first, chunk_number_of_samples = counts i, chunk_offset = stco_offset t i \<rparr>
       # fill_chunks t counts k (i + 1) (first + counts i)"

text \<open>
  The third loop writes one sample for \<open>i = 1, ..., number_of_samples_\<close>; \<open>chunk_walk\<close> is its
  inner \<open>while\<close>, which moves to the next chunk, resets \<open>sample_offset\<close> and gives up at the
  last chunk. \<open>slice_poc offset size\<close> stands for
  \<open>DecodeSliceHeader(&data_[offset], size)\<close>; the loop also keeps
  \<open>max_picture_order_count_\<close>.
\<close>

function chunk_walk :: "Chunk list \<Rightarrow> 32 word \<Rightarrow> nat \<Rightarrow> 32 word \<Rightarrow> (nat \<times> 32 word) option" where
  "chunk_walk chunks i chunk sample_offset =
     (if i \<ge> chunk_first_sample (chunks ! chunk) + chunk_number_of_samples (chunks ! chunk)
      then (if chunk \<ge> length chunks - 1 then None else chunk_walk chunks i (chunk + 1) 0)
      else Some (chunk, sample_offset))"
  by pat_completeness auto
termination
  by (relation "measure (\<lambda>(chunks, i, chunk, sample_offset). length chunks - chunk)") auto

declare chunk_walk.simps [simp del]

fun samples_loop ::
  "SampleTables \<Rightarrow> (32 word \<Rightarrow> 32 word \<Rightarrow> 32 word) \<Rightarrow> Chunk list \<Rightarrow> nat \<Rightarrow> 32 word \<Rightarrow> nat \<Rightarrow>
   32 word \<Rightarrow> 32 word \<Rightarrow> (Sample list \<times> 32 word) option" where
  "samples_loop t slice_poc chunks 0 i chunk sample_offset max_poc = Some ([], max_poc)"
| "samples_loop t slice_poc chunks (Suc k) i chunk sample_offset max_poc =
     (case chunk_walk chunks i chunk sample_offset of
        None \<Rightarrow> None
      | Some (chunk1, sample_offset1) \<Rightarrow>
          let sample_index = i - 1;
              off = chunk_offset (chunks ! chunk1) + sample_offset1;
              sz = (if stsz_sample_size t \<noteq> 0 then stsz_sample_size t
                    else stsz_size t (unat sample_index));
              poc = slice_poc off sz;
              sample = \<lparr> smp_offset = off, smp_size = sz, smp_duration = 0,
                         smp_picture_order_count = poc \<rparr>
          in map_option (\<lambda>(samples, m). (sample # samples, m))
               (samples_loop t slice_poc chunks k (i + 1) chunk1 (sample_offset1 + sz)
                  (if max_poc \<ge> poc then max_poc else poc)))"

text \<open>
  \<open>InitializeSamples\<close>: \<open>Some None\<close> is \<open>return 0\<close>, \<open>Some (Some (samples, max))\<close> is
  \<open>return 1\<close> with the table written. Both \<open>malloc\<close> calls are taken to succeed. With
  \<open>number_of_samples_ = 0xFFFFFFFF\<close> the counter \<open>i\<close> of the third loop wraps around and the loop
  writes outside \<open>samples_\<close>; the result is \<open>None\<close> there.
\<close>

definition InitializeSamples ::
  "SampleTables \<Rightarrow> (32 word \<Rightarrow> 32 word \<Rightarrow> 32 word) \<Rightarrow> (Sample list \<times> 32 word) option option" where
  "InitializeSamples t slice_poc =
    (if stsc_count t = 0 \<or> stco_count t = 0 then Some None
     else
       case chunk_counts_loop t (unat (stco_count t)) (unat (stsc_count t - 1))
              (stsc_first t (unat (stsc_count t - 1))) 0 (\<lambda>_. 0) of
         None \<Rightarrow> Some None
       | Some (number_of_samples, counts) \<Rightarrow>
           if stsz_sample_size t = 0 \<and> number_of_samples \<noteq> stsz_count t then Some None
           else if number_of_samples = 0xFFFFFFFF then None
           else Some (samples_loop t slice_poc (fill_chunks t counts (unat (stco_count t)) 0 1)
                        (unat number_of_samples) 1 0 0 0))"

text \<open>
  The part of \<open>Decoder::Create\<close> that builds the table: \<open>InitializeSamples\<close>, then the loop
  over the \<open>stts\<close> entries when the stream has an \<open>stts\<close> and an \<open>mdhd\<close> atom
  (\<open>HasSampleDurations\<close>). \<open>duration_run\<close> is the inner \<open>do ... while (++entry_start < entry_end)\<close>.
\<close>

datatype create_error = kVTVideoDecoderUnsupportedDataFormatErr | kVTAllocationFailedErr
  | kVTVideoDecoderBadDataErr

fun duration_run :: "Sample list \<Rightarrow> 32 word \<Rightarrow> nat \<Rightarrow> nat \<Rightarrow> Sample list" where
  "duration_run samples d entry_start 0 = samples"
| "duration_run samples d entry_start (Suc k) =
     duration_run (samples [entry_start := (samples ! entry_start) \<lparr> smp_duration := d \<rparr>]) d
       (entry_start + 1) k"

fun stts_loop ::
  "SampleTables \<Rightarrow> 32 word \<Rightarrow> nat \<Rightarrow> nat \<Rightarrow> 32 word \<Rightarrow> Sample list \<Rightarrow> Sample list option" where
  "stts_loop t number_of_samples 0 i entry_start samples = Some samples"
| "stts_loop t number_of_samples (Suc k) i entry_start samples =
     (let entry_end = entry_start + stts_entry_count t i
      in if entry_end > number_of_samples then None
         else if entry_start < entry_end
         then stts_loop t number_of_samples k (i + 1) entry_end
                (duration_run samples (stts_duration t i) (unat entry_start)
                   (unat entry_end - unat entry_start))
         else stts_loop t number_of_samples k (i + 1) entry_start samples)"

definition Create_samples ::
  "SampleTables \<Rightarrow> bool \<Rightarrow> (32 word \<Rightarrow> 32 word \<Rightarrow> 32 word) \<Rightarrow> (create_error + Sample list) option" where
  "Create_samples t has_sample_durations slice_poc =
    (case InitializeSamples t slice_poc of
       None \<Rightarrow> None
     | Some None \<Rightarrow> Some (Inl kVTAllocationFailedErr)
     | Some (Some (samples, max_poc)) \<Rightarrow>
         if has_sample_durations
         then (case stts_loop t (of_nat (length samples)) (unat (stts_count t)) 0 0 samples of
                 None \<Rightarrow> Some (Inl kVTVideoDecoderBadDataErr)
               | Some samples1 \<Rightarrow> Some (Inr samples1))
         else Some (Inr samples))"

text \<open>
  A stream of one chunk with one sample of 16 bytes at offset 0x30, and two \<open>stts\<close> runs: one
  sample, then 0xFFFFFFFF samples. In \<open>stts_wrap_tables_fixed\<close> the second run has one sample.
\<close>

definition stts_wrap_tables :: SampleTables where
  "stts_wrap_tables = \<lparr> stsc_count = 1, stsc_first = (\<lambda>_. 1), stsc_samples = (\<lambda>_. 1),
     stco_count = 1, stco_offset = (\<lambda>_. 0x30),
     stsz_sample_size = 0, stsz_count = 1, stsz_size = (\<lambda>_. 0x10),
     stts_count = 2, stts_entry_count = (\<lambda>i. if i = 0 then 1 else 0xFFFFFFFF),
     stts_duration = (\<lambda>_. 100) \<rparr>"

definition stts_wrap_tables_fixed :: SampleTables where
  "stts_wrap_tables_fixed = stts_wrap_tables \<lparr> stts_entry_count := (\<lambda>i. 1) \<rparr>"

section \<open>Properties of ParseProfileTierLevel\<close>

lemma ParseProfileTierLevel_short:
  "int end_p - int top_p < 12 \<Longrightarrow> fst (ParseProfileTierLevel m top_p end_p k ptl) = None"
  by (simp add: ParseProfileTierLevel_def)

lemma ParseProfileTierLevel_ignores_sub_layers:
  "12 \<le> int end_p - int top_p \<Longrightarrow> fst (ParseProfileTierLevel m top_p end_p k ptl) = Some (top_p + 12)"
  by (simp add: ParseProfileTierLevel_def Let_def)

text \<open>
  C8. The claim says that the parse fails for every call with
  \<open>max_sub_layers_minus1 > 0\<close>. The body never reads that parameter: on a 12-byte buffer
  and \<open>max_sub_layers_minus1 = 1\<close> it returns the advanced pointer \<open>top + 12\<close>, not
  \<open>NULL\<close>.
\<close>

theorem ParseProfileTierLevel_sub_layers_accepted:
  "fst (ParseProfileTierLevel (mem_of [1, 96, 0, 0, 0, 144, 0, 0, 0, 0, 0, 120]) 0 12 1 ptl_zero)
     = Some 12"
  by (simp add: ParseProfileTierLevel_def Let_def)

section \<open>The reader decodes canonical Exp-Golomb codes\<close>

lemma stream_bit_at:
  assumes "k < 8" "n = 8 * q + (7 - k)"
  shows "stream_bit m n = bit (m q) k"
proof -
  define j where "j = 7 - k"
  have j: "j < 8" "7 - j = k" using assms by (simp_all add: j_def)
  have "n = 8 * q + j" using assms by (simp add: j_def)
  then have "n div 8 = q" "n mod 8 = j" using j(1) by simp_all
  then show ?thesis using j(2) by (simp add: stream_bit_def)
qed

lemma bit_u8_high: "8 \<le> i \<Longrightarrow> \<not> bit (w :: 8 word) i"
  using bit_imp_le_length [of w i] by auto

lemma bit_LoadUINT32BE:
  "bit (LoadUINT32BE m p) i \<longleftrightarrow> i < 32 \<and> stream_bit m (8 * p + (31 - i))"
proof -
  consider "i < 8" | "8 \<le> i" "i < 16" | "16 \<le> i" "i < 24" | "24 \<le> i" "i < 32" | "32 \<le> i"
    by linarith
  then show ?thesis
  proof cases
    case 1
    then have "stream_bit m (8 * p + (31 - i)) = bit (m (p + 3)) i"
      by (intro stream_bit_at) simp_all
    with 1 show ?thesis
      by (auto simp add: LoadUINT32BE_def bit_simps)
  next
    case 2
    then have "stream_bit m (8 * p + (31 - i)) = bit (m (p + 2)) (i - 8)"
      by (intro stream_bit_at) simp_all
    with 2 show ?thesis
      by (auto simp add: LoadUINT32BE_def bit_simps bit_u8_high)
  next
    case 3
    then have "stream_bit m (8 * p + (31 - i)) = bit (m (p + 1)) (i - 16)"
      by (intro stream_bit_at) simp_all
    with 3 show ?thesis
      by (auto simp add: LoadUINT32BE_def bit_simps bit_u8_high)
  next
    case 4
    then have "stream_bit m (8 * p + (31 - i)) = bit (m p) (i - 24)"
      by (intro stream_bit_at) simp_all
    with 4 show ?thesis
      by (auto simp add: LoadUINT32BE_def bit_simps bit_u8_high)
  next
    case 5
    then have "\<not> bit (LoadUINT32BE m p) i"
      using bit_imp_le_length [of "LoadUINT32BE m p" i] by auto
    with 5 show ?thesis by simp
  qed
qed

lemma bit_LoadUINT64BE:
  "bit (LoadUINT64BE m p) i \<longleftrightarrow> i < 64 \<and> stream_bit m (8 * p + (63 - i))"
proof -
  consider "i < 32" | "32 \<le> i" "i < 64" | "64 \<le> i" by linarith
  then show ?thesis
  proof cases
    case 1
    then have "8 * p + (63 - i) = 8 * (p + 4) + (31 - i)" by simp
    with 1 show ?thesis
      by (auto simp add: LoadUINT64BE_def bit_simps bit_LoadUINT32BE)
  next
    case 2
    then have "8 * p + (63 - i) = 8 * p + (31 - (i - 32))" by simp
    with 2 show ?thesis
      by (auto simp add: LoadUINT64BE_def bit_simps bit_LoadUINT32BE)
  next
    case 3
    then have "\<not> bit (LoadUINT64BE m p) i"
      using bit_imp_le_length [of "LoadUINT64BE m p" i] by auto
    with 3 show ?thesis by simp
  qed
qed

lemma clz_eq:
  fixes w :: "'a::len word"
  assumes k: "k < LENGTH('a)"
    and one: "bit w (LENGTH('a) - 1 - k)"
    and zero: "\<And>i. LENGTH('a) - 1 - k < i \<Longrightarrow> \<not> bit w i"
  shows "clz w = k"
proof -
  define xs where "xs = map (bit w) (rev [0..<LENGTH('a)])"
  have len: "length xs = LENGTH('a)" by (simp add: xs_def)
  have nth: "xs ! j = bit w (LENGTH('a) - 1 - j)" if "j < LENGTH('a)" for j
    using that by (simp add: xs_def rev_nth)
  have "\<And>i. i < k \<Longrightarrow> \<not> xs ! i"
    using k zero by (simp add: nth)
  then have ge: "k \<le> length (takeWhile Not xs)"
    using k by (intro length_takeWhile_less_P_nth) (simp_all add: len)
  have "\<not> k < length (takeWhile Not xs)"
  proof
    assume a: "k < length (takeWhile Not xs)"
    then have "takeWhile Not xs ! k \<in> set (takeWhile Not xs)" by simp
    then have "\<not> takeWhile Not xs ! k" by (auto dest: set_takeWhileD)
    moreover have "takeWhile Not xs ! k = xs ! k" using a by (rule takeWhile_nth)
    ultimately show False using one k by (simp add: nth)
  qed
  with ge show ?thesis by (simp add: clz_def xs_def)
qed

lemma bit_len_bounds: "0 < n \<Longrightarrow> 2 ^ (bit_len n - 1) \<le> n \<and> n < 2 ^ bit_len n"
proof (induction n rule: bit_len.induct)
  case (1 n)
  show ?case
  proof (cases "n div 2 = 0")
    case True
    with 1(2) have "n = 1" by presburger
    moreover have "bit_len (Suc 0) = Suc 0"
      by (simp add: bit_len.simps [of "Suc 0"] bit_len.simps [of 0])
    ultimately show ?thesis by simp
  next
    case False
    with 1 have ih: "2 ^ (bit_len (n div 2) - 1) \<le> n div 2" "n div 2 < 2 ^ bit_len (n div 2)"
      by simp_all
    have pos: "0 < bit_len (n div 2)" using False by (simp add: bit_len.simps [of "n div 2"])
    have eq: "bit_len n = Suc (bit_len (n div 2))" using 1(2) by (simp add: bit_len.simps [of n])
    have "2 * 2 ^ (bit_len (n div 2) - 1) \<le> n" using ih(1) by linarith
    moreover have "2 * 2 ^ (bit_len (n div 2) - 1) = (2::nat) ^ bit_len (n div 2)"
      using pos by (cases "bit_len (n div 2)") simp_all
    moreover have "n < 2 * 2 ^ bit_len (n div 2)" using ih(2) by linarith
    ultimately show ?thesis by (simp add: eq)
  qed
qed

lemma bit_len_unique:
  assumes "2 ^ k \<le> n" "n < 2 ^ (k + 1)"
  shows "bit_len n = k + 1"
proof -
  have pos: "0 < n" using assms(1) by (metis gr0I not_less power_eq_0_iff zero_neq_numeral le_zero_eq)
  note b = bit_len_bounds [OF pos]
  have "(2::nat) ^ k < 2 ^ bit_len n" using assms(1) b by linarith
  then have 1: "k < bit_len n" by (simp add: power_strict_increasing_iff)
  have "(2::nat) ^ (bit_len n - 1) < 2 ^ (k + 1)" using assms(2) b by linarith
  then have "bit_len n - 1 < k + 1" by (rule power_less_imp_less_exp [rotated]) simp
  with 1 show ?thesis by linarith
qed

lemma bit_above: "n < 2 ^ j \<Longrightarrow> j \<le> i \<Longrightarrow> \<not> bit (n::nat) i"
proof -
  assume a: "n < 2 ^ j" "j \<le> i"
  have "(2::nat) ^ j \<le> 2 ^ i" using a(2) by (simp add: power_increasing)
  with a(1) have "n < 2 ^ i" by linarith
  then show ?thesis by (simp add: bit_iff_odd)
qed

lemma golomb_code_eq:
  assumes "2 ^ k \<le> v + 1" "v + 1 < 2 ^ (k + 1)"
  shows "golomb_code v = bits_be (2 * k + 1) (v + 1)"
proof -
  have bl: "bit_len (v + 1) - 1 = k" using bit_len_unique [OF assms] by simp
  define s where "s = v + 1 - 2 ^ k"
  have s: "v + 1 = s + 2 ^ k" "s < 2 ^ k" using assms by (simp_all add: s_def)
  have gc: "golomb_code v = replicate k False @ True # bits_be k s"
    unfolding golomb_code_def bl Let_def s_def ..
  have low: "bit (v + 1) i = bit s i" if "i < k" for i
  proof -
    have "(s + 2 ^ k) mod 2 ^ k = s mod 2 ^ k" by simp
    then have "take_bit k (v + 1) = take_bit k s" unfolding s(1) take_bit_eq_mod .
    then have "bit (take_bit k (v + 1)) i = bit (take_bit k s) i" by simp
    then show ?thesis using that by (simp add: bit_take_bit_iff)
  qed
  have mid: "bit (v + 1) k"
  proof -
    have "(s + 2 ^ k) div 2 ^ k = s div 2 ^ k + 1"
      using div_add_self2 [of "2 ^ k :: nat" s] by simp
    then have "(v + 1) div 2 ^ k = 1" using s(2) unfolding s(1) by simp
    then show ?thesis by (simp add: bit_iff_odd)
  qed
  have high: "\<not> bit (v + 1) i" if "k < i" for i
    using bit_above [OF assms(2), of i] that by simp
  show ?thesis
  proof (rule nth_equalityI)
    show "length (golomb_code v) = length (bits_be (2 * k + 1) (v + 1))"
      by (simp add: gc bits_be_def)
  next
    fix i assume "i < length (golomb_code v)"
    then have i: "i < 2 * k + 1" by (simp add: gc bits_be_def)
    consider "i < k" | "i = k" | "k < i" by linarith
    then show "golomb_code v ! i = bits_be (2 * k + 1) (v + 1) ! i"
    proof cases
      case 1
      then show ?thesis using i high [of "2 * k - i"]
        by (simp add: gc bits_be_def nth_append)
    next
      case 2
      then show ?thesis using mid
        by (auto simp add: gc bits_be_def nth_append)
    next
      case 3
      then have "i - k - 1 < k" "k - 1 - (i - k - 1) = 2 * k - i" "2 * k - i < k" using i by simp_all
      then show ?thesis using 3 i low [of "2 * k - i"]
        by (cases "i = 2 * k") (auto simp add: gc bits_be_def nth_append nth_Cons')
    qed
  qed
qed

lemma bits_be_nth: "i < n \<Longrightarrow> bits_be n v ! i = bit v (n - 1 - i)"
  unfolding bits_be_def by (subst nth_map) simp_all

lemma length_bits_be: "length (bits_be n v) = n"
  by (simp add: bits_be_def)

lemma code_length_eq:
  assumes "k \<le> 31"
  shows "(64 - (of_nat k * 2 + 1) :: 64 word) = of_nat (63 - 2 * k)"
proof -
  have "(of_nat (63 - 2 * k) :: 64 word) = of_nat 63 - of_nat (2 * k)"
    using assms by (intro of_nat_diff) simp
  then show ?thesis by simp
qed

lemma unat_small_of_nat: "n \<le> 64 \<Longrightarrow> unat (of_nat n :: 64 word) = n"
  by (rule of_nat_inverse [OF refl]) simp

lemma ReadGolomb_initial:
  assumes v: "v \<le> 65534" and k: "2 ^ k \<le> v + 1" "v + 1 < 2 ^ (k + 1)"
    and code: "\<forall>i < length (golomb_code v). stream_bit m (8 * p + i) = golomb_code v ! i"
  shows "ReadGolomb m (Initialize m p e) =
     (of_nat v, \<lparr> bs_top = p + 8, bs_end = e,
        bs_cache = LoadUINT64BE m p XOR push_bit (63 - 2 * k) (of_nat (v + 1)),
        bs_length = of_nat (63 - 2 * k) \<rparr>)"
proof -
  define W where "W = LoadUINT64BE m p"
  have k15: "k \<le> 15"
  proof (rule ccontr)
    assume "\<not> k \<le> 15"
    then have "(2::nat) ^ 16 \<le> 2 ^ k" by (intro power_increasing) simp_all
    with k(1) v show False by simp
  qed
  have gc: "golomb_code v = bits_be (2 * k + 1) (v + 1)" by (rule golomb_code_eq [OF k])
  have sb: "stream_bit m (8 * p + i) = bit (v + 1) (2 * k - i)" if "i < 2 * k + 1" for i
    using code that by (simp add: gc bits_be_nth length_bits_be)
  have bitW: "bit W (63 - i) = bit (v + 1) (2 * k - i)" if "i < 2 * k + 1" for i
    using that k15 sb [OF that] by (auto simp add: W_def bit_LoadUINT64BE)
  have high: "\<not> bit (v + 1) i" if "k < i" for i
    using bit_above [OF k(2), of i] that by simp
  have mid: "bit (v + 1) k"
  proof -
    have "golomb_code v ! k"
      using bit_len_unique [OF k] by (simp add: golomb_code_def Let_def nth_append)
    then show ?thesis by (simp add: gc bits_be_nth)
  qed
  have clzW: "clz W = k"
  proof (rule clz_eq)
    show "k < LENGTH(64)" using k15 by simp
    show "bit W (LENGTH(64) - 1 - k)" using bitW [of k] mid by simp
    fix i assume a: "LENGTH(64) - 1 - k < i"
    show "\<not> bit W i"
    proof (cases "i < 64")
      case True
      then have "bit W i = bit W (63 - (63 - i))" by simp
      also have "\<dots> = bit (v + 1) (2 * k - (63 - i))" using a True by (intro bitW) simp
      finally show ?thesis using high [of "2 * k - (63 - i)"] a True by simp
    next
      case False
      then show ?thesis using bit_imp_le_length [of W i] by auto
    qed
  qed
  have len2: "(64 - (of_nat k * 2 + 1) :: 64 word) = of_nat (63 - 2 * k)"
    using k15 by (intro code_length_eq) simp
  have len: "unat (of_nat (63 - 2 * k) :: 64 word) = 63 - 2 * k"
    by (intro unat_small_of_nat) simp
  define N where "N = v + 1"
  have codeN: "drop_bit (63 - 2 * k) W = of_nat N"
  proof (rule bit_eqI)
    fix j
    show "bit (drop_bit (63 - 2 * k) W) j = bit (of_nat N :: 64 word) j"
    proof (cases "j \<le> 2 * k")
      case True
      then have "bit W (63 - 2 * k + j) = bit W (63 - (2 * k - j))" using k15 by simp
      also have "\<dots> = bit (v + 1) (2 * k - (2 * k - j))" using True by (intro bitW) simp
      also have "\<dots> = bit N j" using True by (simp add: N_def)
      finally show ?thesis using True k15 by (simp add: bit_simps)
    next
      case False
      then have 1: "\<not> bit N j" using high [of j] by (simp add: N_def)
      have "\<not> bit W (63 - 2 * k + j)"
        using False k15 bit_imp_le_length [of W "63 - 2 * k + j"] by auto
      with 1 show ?thesis by (simp add: bit_simps)
    qed
  qed
  then have codeW: "drop_bit (63 - 2 * k) W = 1 + of_nat v" by (simp add: N_def)
  have len64: "(63 - 2 * k) mod 64 = 63 - 2 * k" by simp
  show ?thesis
    unfolding ReadGolomb_def Initialize_def LoadCache_def
    by (simp add: Let_def take_code_def shift_right_def shift_left_def W_def [symmetric] clzW
        len2 len len64 codeW)
qed

text \<open>
  C2. Let \<open>v \<le> 65534\<close> and let \<open>k\<close> be \<open>floor (log2 (v + 1))\<close>, that is
  \<open>2 ^ k \<le> v + 1 < 2 ^ (k + 1)\<close>. On a reader initialised at a buffer whose leading
  bits are the canonical code word of \<open>v\<close>, \<open>GetGolomb<T>\<close> returns \<open>v\<close> for every
  result type \<open>T\<close> of at least 16 bits, the read consumes \<open>2 * k + 1\<close> bits, and that is
  the length of the code word.
\<close>

theorem GetGolomb_roundtrip:
  fixes m :: memory and v k p e :: nat
  assumes v: "v \<le> 65534" and k: "2 ^ k \<le> v + 1" "v + 1 < 2 ^ (k + 1)"
    and code: "map (\<lambda>i. stream_bit m (8 * p + i)) [0..<length (golomb_code v)] = golomb_code v"
    and T: "16 \<le> LENGTH('a::len)"
  shows "unat (fst (GetGolomb m (Initialize m p e) :: 'a word \<times> BitStreamReader)) = v \<and>
         bit_position (snd (GetGolomb m (Initialize m p e) :: 'a word \<times> BitStreamReader))
           - bit_position (Initialize m p e) = 2 * k + 1 \<and>
         length (golomb_code v) = 2 * k + 1"
proof -
  have nth: "\<forall>i < length (golomb_code v). stream_bit m (8 * p + i) = golomb_code v ! i"
  proof (intro allI impI)
    fix i assume i: "i < length (golomb_code v)"
    have "map (\<lambda>i. stream_bit m (8 * p + i)) [0..<length (golomb_code v)] ! i = golomb_code v ! i"
      using code by simp
    then show "stream_bit m (8 * p + i) = golomb_code v ! i" using i by simp
  qed
  note rg = ReadGolomb_initial [OF v k nth, of e]
  have k15: "k \<le> 15"
  proof (rule ccontr)
    assume "\<not> k \<le> 15"
    then have "(2::nat) ^ 16 \<le> 2 ^ k" by (intro power_increasing) simp_all
    with k(1) v show False by simp
  qed
  have "(2::nat) ^ 16 \<le> 2 ^ LENGTH('a)" using T by (intro power_increasing) simp_all
  then have vlt: "v < 2 ^ LENGTH('a)" using v by simp
  have val: "unat (ucast (of_nat v :: 64 word) :: 'a word) = v"
  proof -
    have "(ucast (of_nat v :: 64 word) :: 'a word) = of_nat (unat (of_nat v :: 64 word))" by simp
    moreover have "unat (of_nat v :: 64 word) = v"
      by (rule of_nat_inverse [OF refl]) (use v in simp)
    ultimately show ?thesis using vlt by (simp add: unat_of_nat)
  qed
  have len: "unat (of_nat (63 - 2 * k) :: 64 word) = 63 - 2 * k"
    by (intro unat_small_of_nat) simp
  have "fst (GetGolomb m (Initialize m p e) :: 'a word \<times> BitStreamReader)
      = ucast (of_nat v :: 64 word)"
    unfolding GetGolomb_def rg by simp
  then have 1: "unat (fst (GetGolomb m (Initialize m p e) :: 'a word \<times> BitStreamReader)) = v"
    using val by simp
  have sg: "snd (GetGolomb m (Initialize m p e) :: 'a word \<times> BitStreamReader)
      = snd (ReadGolomb m (Initialize m p e))"
    by (simp add: GetGolomb_def split_def Let_def)
  have "bit_position (snd (GetGolomb m (Initialize m p e) :: 'a word \<times> BitStreamReader))
      = 8 * (p + 8) - (63 - 2 * k)"
    unfolding sg rg bit_position_def snd_conv using len by simp
  moreover have "bit_position (Initialize m p e) = 8 * p"
    by (simp add: bit_position_def Initialize_def LoadCache_def)
  ultimately have 2: "bit_position (snd (GetGolomb m (Initialize m p e) :: 'a word \<times> BitStreamReader))
           - bit_position (Initialize m p e) = 2 * k + 1"
    using k15 by simp
  have 3: "length (golomb_code v) = 2 * k + 1"
    by (simp add: golomb_code_eq [OF k] length_bits_be)
  from 1 2 3 show ?thesis by blast
qed

theorem GetGolomb_roundtrip_witness:
  "unat (fst (GetGolomb (mem_of [0x20]) (Initialize (mem_of [0x20]) 0 1) :: 16 word \<times> BitStreamReader)) = 3 \<and>
   bit_position (snd (GetGolomb (mem_of [0x20]) (Initialize (mem_of [0x20]) 0 1) :: 16 word \<times> BitStreamReader))
     - bit_position (Initialize (mem_of [0x20]) 0 1) = 2 * 2 + 1 \<and>
   length (golomb_code 3) = 2 * 2 + 1"
proof -
  have c: "map (\<lambda>i. stream_bit (mem_of [0x20]) (8 * 0 + i)) [0..<length (golomb_code 3)] = golomb_code 3"
    by code_simp
  show ?thesis
    using GetGolomb_roundtrip [where 'a = 16 and v = 3 and k = 2 and m = "mem_of [0x20]" and p = 0 and e = 1, OF _ _ _ c]
    by simp
qed

section \<open>The atom walk on an atom of size 0\<close>

lemma zero_size_stuck:
  assumes "EnumerateChildAtoms_loop m start end_p s = Some r"
  shows "\<not> (m = mem_of zero_size_stream \<and> start = 0 \<and> end_p = 8)"
  apply (rule EnumerateChildAtoms_loop.raw_induct
      [where P = "\<lambda>m start end_p s r. \<not> (m = mem_of zero_size_stream \<and> start = 0 \<and> end_p = 8)",
       OF _ assms])
  subgoal premises prems for f m start end_p s r
  proof
    assume a: "m = mem_of zero_size_stream \<and> start = 0 \<and> end_p = 8"
    have sz: "Atom_GetSize (mem_of zero_size_stream) 0 = 0"
      by (simp add: Atom_GetSize_def LoadUINT32BE_def mem_of_def zero_size_stream_def)
    have ty: "Atom_GetType (mem_of zero_size_stream) 0 = 0x66726565"
      by (simp add: Atom_GetType_def LoadUINT32BE_def mem_of_def zero_size_stream_def)
    from prems(2) a have "f m start end_p (record_atom 0x66726565 0 s) = Some r"
      by (simp add: sz ty is_container_def TYPE_MOOV_def TYPE_TRAK_def
          TYPE_MDIA_def TYPE_MINF_def TYPE_STBL_def)
    then show False using prems(1) a by blast
  qed
  done

text \<open>
  C9. The claim says that \<open>Enumerate\<close> terminates on every input, also on an atom whose
  declared size is 0. On the 8-byte stream holding one \<open>free\<close> atom of size 0 the loop
  adds 0 to \<open>start\<close> for ever: the walk has no result.
\<close>

theorem Enumerate_zero_size_diverges:
  "Enumerate (mem_of zero_size_stream) AtomCollection_Initialize 0 8 = None"
proof (cases "EnumerateChildAtoms_loop (mem_of zero_size_stream) 0 8 (\<lambda>_. None, 0)")
  case None
  then show ?thesis
    by (simp add: Enumerate_def EnumerateChildAtoms_def AtomCollection_Initialize_def)
next
  case (Some r)
  then show ?thesis using zero_size_stuck by blast
qed

lemma overrun_stream_stuck:
  assumes "EnumerateChildAtoms_loop m start end_p s = Some r"
  shows "\<not> (m = mem_of overrun_then_zero_size_stream \<and> start = 16 \<and> end_p = 24)"
  apply (rule EnumerateChildAtoms_loop.raw_induct
      [where P = "\<lambda>m start end_p s r.
          \<not> (m = mem_of overrun_then_zero_size_stream \<and> start = 16 \<and> end_p = 24)",
       OF _ assms])
  subgoal premises prems for f m start end_p s r
  proof
    assume a: "m = mem_of overrun_then_zero_size_stream \<and> start = 16 \<and> end_p = 24"
    have sz: "Atom_GetSize (mem_of overrun_then_zero_size_stream) 16 = 0"
      by (simp add: Atom_GetSize_def LoadUINT32BE_def mem_of_def overrun_then_zero_size_stream_def)
    have ty: "Atom_GetType (mem_of overrun_then_zero_size_stream) 16 = 0x66726565"
      by (simp add: Atom_GetType_def LoadUINT32BE_def mem_of_def overrun_then_zero_size_stream_def)
    from prems(2) a have "f m start end_p (record_atom 0x66726565 16 s) = Some r"
      by (simp add: sz ty is_container_def TYPE_MOOV_def TYPE_TRAK_def
          TYPE_MDIA_def TYPE_MINF_def TYPE_STBL_def)
    then show False using prems(1) a by blast
  qed
  done

lemma overrun_stream_child_error:
  "EnumerateChildAtoms (mem_of overrun_then_zero_size_stream) tbl 0 8 16
     = Some (tbl, push_bit ID_ERROR 1)"
proof -
  have sz: "Atom_GetSize (mem_of overrun_then_zero_size_stream) 8 = 100"
    by (simp add: Atom_GetSize_def LoadUINT32BE_def mem_of_def overrun_then_zero_size_stream_def)
  show ?thesis
    unfolding EnumerateChildAtoms_def
    by (subst EnumerateChildAtoms_loop.simps) (simp add: sz)
qed

text \<open>
  C4. The claim says that \<open>Enumerate\<close> fails whenever an atom at any depth overruns its
  enclosing range. In the 24-byte stream below the child of the \<open>moov\<close> atom declares 100
  bytes inside a 16-byte parent, and the nested walk reports the structural error; the
  parent walk goes on to the next atom, whose size is 0, and never returns, so
  \<open>Enumerate\<close> returns neither failure nor success.
\<close>

theorem Enumerate_overrun_then_zero_size_diverges:
  "Enumerate (mem_of overrun_then_zero_size_stream) AtomCollection_Initialize 0 24 = None"
proof -
  let ?m = "mem_of overrun_then_zero_size_stream"
  have sz: "Atom_GetSize ?m 0 = 16"
    by (simp add: Atom_GetSize_def LoadUINT32BE_def mem_of_def overrun_then_zero_size_stream_def)
  have ty: "Atom_GetType ?m 0 = TYPE_MOOV"
    by (simp add: Atom_GetType_def LoadUINT32BE_def mem_of_def overrun_then_zero_size_stream_def
        TYPE_MOOV_def)
  have child: "EnumerateChildAtoms_loop ?m 8 16 (tbl, 0) = Some (tbl, push_bit ID_ERROR 1)" for tbl
    using overrun_stream_child_error [of tbl] by (simp add: EnumerateChildAtoms_def)
  have rest: "EnumerateChildAtoms_loop ?m 16 24 s = None" for s
    using overrun_stream_stuck [of ?m 16 24 s] by (cases "EnumerateChildAtoms_loop ?m 16 24 s") auto
  have "EnumerateChildAtoms_loop ?m 0 24 (\<lambda>_. None, 0) = None"
    by (subst EnumerateChildAtoms_loop.simps) (simp add: sz ty is_container_def child rest)
  then show ?thesis
    by (simp add: Enumerate_def EnumerateChildAtoms_def AtomCollection_Initialize_def)
qed

section \<open>SEI messages that end at or beyond the end of the RBSP\<close>

text \<open>
  C10, as amended. \<open>sei_loop m rbsp_end rbsp_top alpha\<close> is the rest of the scan from the
  loop head at \<open>rbsp_top\<close> with \<open>alpha\<close> stored, and every message the scan reaches is such
  a loop head. If the message there has a type byte other than 0xFF, its \<open>payload_size\<close>
  field is complete, and its payload ends at or beyond \<open>rbsp_end\<close>, the scan returns 1 and
  \<open>alpha\<close> is unchanged; so does the whole call when this is the first message. The
  message may be of type 165.
\<close>

theorem sei_payload_to_end:
  assumes "2 \<le> int rbsp_end - int rbsp_top"
    and "m rbsp_top \<noteq> 0xff"
    and "sei_payload m rbsp_end rbsp_top = Some (payload_data, payload_size)"
    and "rbsp_end \<le> payload_data + unat payload_size"
  shows "sei_loop m rbsp_end rbsp_top alpha = (1, alpha) \<and>
         (rbsp_top = rbsp_data + 2 \<and> rbsp_end = rbsp_data + rbsp_size \<longrightarrow>
            DecodeSupplementalEnhancementInformation m alpha rbsp_data rbsp_size = (1, alpha))"
proof -
  have "(ucast (m rbsp_top) :: 64 word) \<noteq> 0xff"
  proof
    assume "(ucast (m rbsp_top) :: 64 word) = 0xff"
    then have "(ucast (ucast (m rbsp_top) :: 64 word) :: 8 word) = ucast (0xff :: 64 word)" by simp
    then show False using assms(2) by (simp add: ucast_down_ucast_id is_down)
  qed
  then have "sei_loop m rbsp_end rbsp_top alpha = (1, alpha)"
    using assms by (simp add: sei_loop.simps [of m rbsp_end rbsp_top])
  then show ?thesis by (auto simp add: DecodeSupplementalEnhancementInformation_def)
qed

theorem sei_payload_to_end_witness:
  "sei_loop (mem_of sei_alpha_to_end) 8 2 alpha_zero = (1, alpha_zero) \<and>
   DecodeSupplementalEnhancementInformation (mem_of sei_alpha_to_end) alpha_zero 0 8 = (1, alpha_zero)"
proof -
  have 1: "2 \<le> int 8 - int 2" by simp
  have 2: "mem_of sei_alpha_to_end 2 \<noteq> 0xff" by (simp add: mem_of_def sei_alpha_to_end_def)
  have 3: "sei_payload (mem_of sei_alpha_to_end) 8 2 = Some (4, 4)"
    by (simp add: sei_payload_def mem_of_def sei_alpha_to_end_def)
  have 4: "(8::nat) \<le> 4 + unat (4 :: 64 word)" by simp
  show ?thesis
    using sei_payload_to_end [OF 1 2 3 4, of alpha_zero 0 8] by simp
qed

text \<open>
  C10 as stated fails: in the RBSP \<open>4E 01 FF 05 00 00\<close> the message at offset 2 has size
  byte 5, so its payload would end at offset 9, beyond the end at 6, but its type byte is
  0xFF and the call returns 0, not 1.
\<close>

theorem sei_type_ff_rejected:
  "fst (DecodeSupplementalEnhancementInformation (mem_of sei_type_ff) alpha_zero 0 6) = 0"
proof -
  have "mem_of sei_type_ff 2 = 0xff" by (simp add: mem_of_def sei_type_ff_def)
  then have "sei_loop (mem_of sei_type_ff) 6 2 alpha_zero = (0, alpha_zero)"
    by (subst sei_loop.simps) simp
  then show ?thesis
    by (simp add: DecodeSupplementalEnhancementInformation_def del: add_2_eq_Suc add_2_eq_Suc')
qed

section \<open>Evaluating the bit primitives and the reader\<close>

lemma clz_eval:
  fixes w :: "'a::len word"
  assumes "k < LENGTH('a)" "2 ^ (LENGTH('a) - 1 - k) \<le> unat w" "unat w < 2 ^ (LENGTH('a) - k)"
  shows "clz w = k"
proof (rule clz_eq [OF assms(1)])
  let ?j = "LENGTH('a) - 1 - k"
  define r where "r = unat w - 2 ^ ?j"
  have "LENGTH('a) - k = Suc ?j" using assms(1) by simp
  then have "unat w < 2 * 2 ^ ?j" using assms(3) by simp
  then have r: "unat w = r + 2 ^ ?j" "r < 2 ^ ?j" using assms(2) by (simp_all add: r_def)
  have "(r + 2 ^ ?j) div 2 ^ ?j = r div 2 ^ ?j + 1"
    using div_add_self2 [of "2 ^ ?j :: nat" r] by simp
  then have "unat w div 2 ^ ?j = 1" using r(2) unfolding r(1) by simp
  then have "bit (unat w) ?j" by (simp add: bit_iff_odd)
  then show "bit w ?j" by (simp add: bit_unsigned_iff)
next
  fix i assume "LENGTH('a) - 1 - k < i"
  then have "LENGTH('a) - k \<le> i" using assms(1) by simp
  then have "\<not> bit (unat w) i" using bit_above [OF assms(3)] by simp
  then show "\<not> bit w i" by (simp add: bit_unsigned_iff)
qed

lemma clz_code: "clz w = LENGTH('a) - bit_len (unat w)" for w :: "'a::len word"
proof (cases "w = 0")
  case True
  have "takeWhile Not (map (bit (0 :: 'a word)) (rev [0..<LENGTH('a)])) = map (bit (0 :: 'a word)) (rev [0..<LENGTH('a)])"
    by (subst takeWhile_eq_all_conv) simp
  then have "length (takeWhile Not (map (bit (0 :: 'a word)) (rev [0..<LENGTH('a)]))) = LENGTH('a)"
    by (simp only: length_map length_rev length_upt)
  then show ?thesis unfolding True clz_def by (simp add: bit_len.simps [of 0])
next
  case False
  then have pos: "0 < unat w" by (simp add: unat_gt_0)
  note b = bit_len_bounds [OF pos]
  have "unat w < 2 ^ LENGTH('a)" by simp
  with b have "(2::nat) ^ (bit_len (unat w) - 1) < 2 ^ LENGTH('a)" by linarith
  then have lt: "bit_len (unat w) - 1 < LENGTH('a)" by (rule power_less_imp_less_exp [rotated]) simp
  have bp: "0 < bit_len (unat w)" using pos by (simp add: bit_len.simps [of "unat w"])
  show ?thesis
  proof (rule clz_eval)
    show "LENGTH('a) - bit_len (unat w) < LENGTH('a)" using bp by simp
    have "LENGTH('a) - 1 - (LENGTH('a) - bit_len (unat w)) = bit_len (unat w) - 1" using lt bp by simp
    then show "2 ^ (LENGTH('a) - 1 - (LENGTH('a) - bit_len (unat w))) \<le> unat w" using b by simp
    have "LENGTH('a) - (LENGTH('a) - bit_len (unat w)) = bit_len (unat w)" using lt bp by simp
    then show "unat w < 2 ^ (LENGTH('a) - (LENGTH('a) - bit_len (unat w)))" using b by simp
  qed
qed

lemma bit_len_eval:
  "bit_len 0 = 0"
  "bit_len (Suc 0) = Suc 0"
  "bit_len (numeral k) = Suc (bit_len (numeral k div 2))"
  by (simp_all add: bit_len.simps [of 0] bit_len.simps [of "Suc 0"] bit_len.simps [of "numeral k"])

lemma ctz_eq:
  fixes w :: "'a::len word"
  assumes k: "k < LENGTH('a)" and one: "bit w k" and zero: "\<And>i. i < k \<Longrightarrow> \<not> bit w i"
  shows "ctz w = k"
proof -
  define xs where "xs = map (bit w) [0..<LENGTH('a)]"
  have len: "length xs = LENGTH('a)" by (simp add: xs_def)
  have nth: "xs ! j = bit w j" if "j < LENGTH('a)" for j
    using that by (simp add: xs_def)
  have "\<And>i. i < k \<Longrightarrow> \<not> xs ! i" using k zero by (simp add: nth)
  then have ge: "k \<le> length (takeWhile Not xs)"
    using k by (intro length_takeWhile_less_P_nth) (simp_all add: len)
  have "\<not> k < length (takeWhile Not xs)"
  proof
    assume a: "k < length (takeWhile Not xs)"
    then have "takeWhile Not xs ! k \<in> set (takeWhile Not xs)" by simp
    then have "\<not> takeWhile Not xs ! k" by (auto dest: set_takeWhileD)
    moreover have "takeWhile Not xs ! k = xs ! k" using a by (rule takeWhile_nth)
    ultimately show False using one k by (simp add: nth)
  qed
  with ge show ?thesis by (simp add: ctz_def xs_def)
qed

lemma ctz_nat_bits: "n \<noteq> 0 \<Longrightarrow> bit n (ctz_nat n) \<and> (\<forall>i < ctz_nat n. \<not> bit n i)"
proof (induction n rule: ctz_nat.induct)
  case (1 n)
  show ?case
  proof (cases "odd n")
    case True
    then show ?thesis by (simp add: ctz_nat.simps [of n] bit_0)
  next
    case False
    with 1(2) have nz: "n div 2 \<noteq> 0" by presburger
    have eq: "ctz_nat n = Suc (ctz_nat (n div 2))" using False 1(2) by (simp add: ctz_nat.simps [of n])
    from 1(1) False 1(2) nz
    have ih: "bit (n div 2) (ctz_nat (n div 2))" "\<forall>i < ctz_nat (n div 2). \<not> bit (n div 2) i"
      by simp_all
    have "\<not> bit n i" if "i < Suc (ctz_nat (n div 2))" for i
    proof (cases i)
      case 0
      then show ?thesis using False by (simp add: bit_0)
    next
      case (Suc j)
      then show ?thesis using that ih(2) by (simp add: bit_Suc)
    qed
    then show ?thesis using ih(1) by (simp add: eq bit_Suc)
  qed
qed

lemma ctz_code: "ctz w = (if w = 0 then LENGTH('a) else ctz_nat (unat w))" for w :: "'a::len word"
proof (cases "w = 0")
  case True
  have "takeWhile Not (map (bit (0 :: 'a word)) [0..<LENGTH('a)]) = map (bit (0 :: 'a word)) [0..<LENGTH('a)]"
    by (subst takeWhile_eq_all_conv) simp
  then have "length (takeWhile Not (map (bit (0 :: 'a word)) [0..<LENGTH('a)])) = LENGTH('a)"
    by (simp only: length_map length_upt diff_zero)
  then show ?thesis unfolding True ctz_def by simp
next
  case False
  then have "unat w \<noteq> 0" by (simp add: unat_eq_zero)
  note b = ctz_nat_bits [OF this]
  have "bit w (ctz_nat (unat w))" using b by (simp add: bit_unsigned_iff)
  moreover from this have "ctz_nat (unat w) < LENGTH('a)" by (rule bit_imp_le_length)
  moreover have "\<And>i. i < ctz_nat (unat w) \<Longrightarrow> \<not> bit w i" using b by (simp add: bit_unsigned_iff)
  ultimately have "ctz w = ctz_nat (unat w)" by (intro ctz_eq)
  with False show ?thesis by simp
qed

lemma ctz_nat_eval:
  "ctz_nat (numeral (Num.Bit0 k)) = Suc (ctz_nat (numeral k))"
  "ctz_nat (numeral (Num.Bit1 k)) = 0"
  "ctz_nat (Suc 0) = 0"
  by (simp_all add: ctz_nat.simps [of "numeral (Num.Bit0 k)"] ctz_nat.simps [of "numeral (Num.Bit1 k)"]
      ctz_nat.simps [of "Suc 0"])

text \<open>The reader's operations on a reader given by its four fields.\<close>

lemma reader_eval:
  "take_code n \<lparr> bs_top = t, bs_end = e, bs_cache = c, bs_length = l \<rparr> =
     (drop_bit (unat (l - n) mod 64) c,
      \<lparr> bs_top = t, bs_end = e,
        bs_cache = c XOR push_bit (unat (l - n) mod 64) (drop_bit (unat (l - n) mod 64) c),
        bs_length = l - n \<rparr>)"
  "LoadCache m \<lparr> bs_top = t, bs_end = e, bs_cache = c, bs_length = l \<rparr> = \<lparr> bs_top = t + 8, bs_end = e, bs_cache = LoadUINT64BE m t, bs_length = 64 \<rparr>"
  "FillCache m \<lparr> bs_top = t, bs_end = e, bs_cache = c, bs_length = l \<rparr> =
     \<lparr> bs_top = t + 4, bs_end = e, bs_cache = push_bit 32 c OR ucast (LoadUINT32BE m t),
       bs_length = l + 32 \<rparr>"
  "GetBit m \<lparr> bs_top = t, bs_end = e, bs_cache = c, bs_length = l \<rparr> =
     (case take_code 1 (if l = 0 then LoadCache m \<lparr> bs_top = t, bs_end = e, bs_cache = c, bs_length = l \<rparr> else \<lparr> bs_top = t, bs_end = e, bs_cache = c, bs_length = l \<rparr>) of
        (code, r2) \<Rightarrow> (ucast code, r2))"
  "GetBits m n \<lparr> bs_top = t, bs_end = e, bs_cache = c, bs_length = l \<rparr> =
     (case take_code n (if l < n then FillCache m \<lparr> bs_top = t, bs_end = e, bs_cache = c, bs_length = l \<rparr> else \<lparr> bs_top = t, bs_end = e, bs_cache = c, bs_length = l \<rparr>) of
        (code, r2) \<Rightarrow> (ucast code, r2))"
  "ReadGolomb m \<lparr> bs_top = t, bs_end = e, bs_cache = c, bs_length = l \<rparr> =
     (case (if l < 32 then FillCache m \<lparr> bs_top = t, bs_end = e, bs_cache = c, bs_length = l \<rparr> else \<lparr> bs_top = t, bs_end = e, bs_cache = c, bs_length = l \<rparr>) of r1 \<Rightarrow>
        (case take_code (of_nat (clz (push_bit (unat (64 - bs_length r1) mod 64) (bs_cache r1))) * 2 + 1) r1 of
           (code, r2) \<Rightarrow> (code - 1, r2)))"
  "GetGolomb m \<lparr> bs_top = t, bs_end = e, bs_cache = c, bs_length = l \<rparr> = (case ReadGolomb m \<lparr> bs_top = t, bs_end = e, bs_cache = c, bs_length = l \<rparr> of (code, r1) \<Rightarrow> (ucast code, r1))"
  "SkipGolomb m \<lparr> bs_top = t, bs_end = e, bs_cache = c, bs_length = l \<rparr> = snd (ReadGolomb m \<lparr> bs_top = t, bs_end = e, bs_cache = c, bs_length = l \<rparr>)"
  "SkipBits m n \<lparr> bs_top = t, bs_end = e, bs_cache = c, bs_length = l \<rparr> =
     (case (if n \<ge> l
            then ((n - l) AND 7,
                  LoadCache m \<lparr> bs_top = t + unat (drop_bit 3 (n - l)), bs_end = e, bs_cache = c,
                    bs_length = l \<rparr>)
            else (n, \<lparr> bs_top = t, bs_end = e, bs_cache = c, bs_length = l \<rparr>)) of
        (n1, r1) \<Rightarrow> snd (take_code n1 r1))"
  "SkipToByteBoundary \<lparr> bs_top = t, bs_end = e, bs_cache = c, bs_length = l \<rparr> =
     snd (take_code 0 \<lparr> bs_top = t, bs_end = e, bs_cache = c, bs_length = l AND NOT 7 \<rparr>)"
  unfolding take_code_def GetBit_def GetBits_def ReadGolomb_def GetGolomb_def SkipGolomb_def
    SkipBits_def SkipToByteBoundary_def LoadCache_def FillCache_def Let_def shift_right_def
    shift_left_def
  by simp_all

lemmas num_eval = clz_code bit_len_eval ctz_code ctz_nat_eval


section \<open>The alpha layer check of the video parameter set\<close>

lemma mask_flags_loop_eval:
  "mask_flags_loop body (numeral k) s =
    (if numeral k XOR push_bit (ctz (numeral k :: 32 word)) 1 \<noteq> (0 :: 32 word)
     then mask_flags_loop body (numeral k XOR push_bit (ctz (numeral k :: 32 word)) 1)
            (body (ctz (numeral k :: 32 word)) s)
     else body (ctz (numeral k :: 32 word)) s)"
  by (subst mask_flags_loop.simps) (simp add: Let_def)

lemma vps_alpha_rbsp_decodes:
  "\<exists>V. DecodeVideoParameterSet (mem_of vps_alpha_rbsp) vps_zero 0 34 = Some (1, V) \<and>
       vps_extension_flag V \<noteq> 0"
  by (simp add: DecodeVideoParameterSet_def ParseProfileTierLevel_def mem_of_def vps_alpha_rbsp_def
      LoadUINT16BE_def LoadUINT32BE_def LoadUINT64BE_def ptl_zero_def
      BitExtractUINT32_def vps_zero_def vps_body_def vps_extension_def Initialize_def
      reader_eval num_eval
      mask_flags_loop_eval read_dimension_id_len_def read_dimension_id_def
      MAX_LAYERS_def AUX_ID_def AUX_ALPHA_def del: add_2_eq_Suc add_2_eq_Suc')

lemma vps_body_ordering:
  assumes "fst (GetBit m r :: 8 word \<times> BitStreamReader) \<noteq> 0"
  shows "\<exists>v. vps_body m vps r = Some (0, v)"
  using assms unfolding vps_body_def Let_def split_def
  by simp

lemma GetBit_Initialize:
  "fst (GetBit m (Initialize m p e) :: 8 word \<times> BitStreamReader) \<noteq> 0 \<longleftrightarrow> stream_bit m (8 * p)"
proof -
  define W where "W = LoadUINT64BE m p"
  have "drop_bit 63 W = of_bool (bit W 63)"
  proof (rule bit_eqI)
    fix j
    show "bit (drop_bit 63 W) j = bit (of_bool (bit W 63) :: 64 word) j"
    proof (cases j)
      case 0
      then show ?thesis by (simp add: bit_simps)
    next
      case (Suc k)
      then have "\<not> bit W (63 + j)" using bit_imp_le_length [of W "63 + j"] by auto
      then show ?thesis using Suc by (simp add: bit_simps)
    qed
  qed
  moreover have "bit W 63 = stream_bit m (8 * p)"
    using bit_LoadUINT64BE [of m p 63] by (simp add: W_def)
  ultimately show ?thesis
    by (simp add: GetBit_def Initialize_def LoadCache_def take_code_def shift_right_def
        shift_left_def W_def [symmetric])
qed

lemma BitExtractUINT32_eq: "BitExtractUINT32 n start len = take_bit len (drop_bit start n)"
  by (simp add: BitExtractUINT32_def take_bit_eq_mask mask_eq_exp_minus_1)

lemma ucast_BitExtractUINT32_nonzero:
  assumes "BitExtractUINT32 n start len \<noteq> 0" "len \<le> 8"
  shows "(ucast (BitExtractUINT32 n start len) :: 8 word) \<noteq> 0"
proof
  assume z: "(ucast (BitExtractUINT32 n start len) :: 8 word) = 0"
  have "BitExtractUINT32 n start len = 0"
  proof (rule bit_eqI)
    fix i
    have "bit (ucast (BitExtractUINT32 n start len) :: 8 word) i = bit (0 :: 8 word) i"
      using z by simp
    then show "bit (BitExtractUINT32 n start len) i = bit (0 :: 32 word) i"
      using assms(2) by (auto simp add: BitExtractUINT32_eq bit_simps)
  qed
  with assms(1) show False by simp
qed

lemma DecodeVideoParameterSet_sub_layers:
  assumes "BitExtractUINT32 (ucast (LoadUINT16BE m (rbsp_data + 2))) 1 3 \<noteq> 0"
  shows "\<exists>v. DecodeVideoParameterSet m vps rbsp_data rbsp_size = Some (0, v)"
  using ucast_BitExtractUINT32_nonzero [OF assms]
  unfolding DecodeVideoParameterSet_def Let_def
  by (simp add: word_greater_zero_iff)

lemma DecodeVideoParameterSet_ordering:
  assumes "stream_bit m (8 * (rbsp_data + 18))"
  shows "\<exists>v. DecodeVideoParameterSet m vps rbsp_data rbsp_size = Some (0, v)"
proof -
  have g: "fst (GetBit m (Initialize m (rbsp_data + 18) e) :: 8 word \<times> BitStreamReader) \<noteq> 0" for e
    using assms by (simp add: GetBit_Initialize)
  have p: "12 \<le> int (rbsp_data + rbsp_size) - int (rbsp_data + 6)" if "\<not> rbsp_size < 18"
    using that by simp
  show ?thesis
    unfolding DecodeVideoParameterSet_def Let_def
    using vps_body_ordering [OF g] p
    by (auto simp add: ParseProfileTierLevel_def Let_def add.assoc)
qed

lemmas vps_eval = DecodeVideoParameterSet_def ParseProfileTierLevel_def mem_of_def
  LoadUINT16BE_def LoadUINT32BE_def LoadUINT64BE_def ptl_zero_def
  BitExtractUINT32_def vps_zero_def vps_body_def vps_extension_def Initialize_def
  reader_eval num_eval mask_flags_loop_eval read_dimension_id_len_def read_dimension_id_def
  MAX_LAYERS_def AUX_ID_def AUX_ALPHA_def alpha_dimension_id_def

text \<open>
  C1: a VPS RBSP whose \<open>vps_extension_flag\<close> is set is claimed to be accepted only if the
  recorded \<open>layer_id_in_nuh[1]\<close> is at most 1 and the recorded \<open>dimension_id\<close> of that layer
  at \<open>AUX_ID\<close> is \<open>AUX_ALPHA\<close>, which is 1. In \<open>vps_skip59_rbsp\<close> the flag is set (bit 217 of
  the RBSP) and the extension gives layer 1 the \<open>dimension_id\<close> 0. When the decoder calls
  \<open>SkipBits(59)\<close> the reader holds 51 bits, so \<open>SkipBits\<close> moves \<open>top_\<close> by one byte, reloads
  the cache, and its last statement shifts by \<open>length_ = 64\<close> and clears the cache. The
  decoder then reads \<open>vps_timing_info_present_flag\<close> and \<open>vps_extension_flag\<close> as 0 and
  returns 1: the recorded \<open>vps_extension_flag\<close> is 0 and the recorded \<open>dimension_id\<close> is still
  0. \<open>vps_skip58_rbsp\<close>, with 58 bits to skip and the same extension, is rejected.
\<close>

theorem DecodeVideoParameterSet_accepts_after_cleared_cache:
  "stream_bit (mem_of vps_skip59_rbsp) 217 \<and>
   map_option fst (DecodeVideoParameterSet (mem_of vps_skip59_rbsp) vps_zero 0 33) = Some 1 \<and>
   map_option (vps_extension_flag \<circ> snd)
     (DecodeVideoParameterSet (mem_of vps_skip59_rbsp) vps_zero 0 33) = Some 0 \<and>
   map_option (alpha_dimension_id \<circ> snd)
     (DecodeVideoParameterSet (mem_of vps_skip59_rbsp) vps_zero 0 33) = Some 0 \<and>
   map_option fst (DecodeVideoParameterSet (mem_of vps_skip58_rbsp) vps_zero 0 33) = Some 0"
proof -
  have 1: "stream_bit (mem_of vps_skip59_rbsp) 217"
    by (simp add: stream_bit_def mem_of_def vps_skip59_rbsp_def bit_numeral_simps)
  have 2: "map_option fst (DecodeVideoParameterSet (mem_of vps_skip59_rbsp) vps_zero 0 33) = Some 1"
    by (simp add: vps_eval vps_skip59_rbsp_def del: add_2_eq_Suc add_2_eq_Suc')
  have 3: "map_option (vps_extension_flag \<circ> snd)
     (DecodeVideoParameterSet (mem_of vps_skip59_rbsp) vps_zero 0 33) = Some 0"
    by (simp add: vps_eval vps_skip59_rbsp_def del: add_2_eq_Suc add_2_eq_Suc')
  have 4: "map_option (alpha_dimension_id \<circ> snd)
     (DecodeVideoParameterSet (mem_of vps_skip59_rbsp) vps_zero 0 33) = Some 0"
    by (simp add: vps_eval vps_skip59_rbsp_def del: add_2_eq_Suc add_2_eq_Suc')
  have 5: "map_option fst (DecodeVideoParameterSet (mem_of vps_skip58_rbsp) vps_zero 0 33) = Some 0"
    by (simp add: vps_eval vps_skip58_rbsp_def del: add_2_eq_Suc add_2_eq_Suc')
  from 1 2 3 4 5 show ?thesis by (simp only: simp_thms)
qed

section \<open>Evaluating ExtractRBSP and the configuration decoder\<close>

lemma ExtractRBSP_loop_eval:
  "ExtractRBSP_loop m data sz last_mask_eq_00 out rbsp_end =
    (if mask_le_000003_of (LoadUINT64LE m data) last_mask_eq_00 (of_nat (if 8 < sz then 8 else sz)) = 0
     then (if sz - (if 8 < sz then 8 else sz) > 0
           then ExtractRBSP_loop m (data + (if 8 < sz then 8 else sz)) (sz - (if 8 < sz then 8 else sz))
                  (mask_eq_00_of (LoadUINT64LE m data))
                  (StoreUINT64LE out rbsp_end (LoadUINT64LE m data))
                  (rbsp_end + (if 8 < sz then 8 else sz))
           else (StoreUINT64LE out rbsp_end (LoadUINT64LE m data),
                 rbsp_end + (if 8 < sz then 8 else sz)))
     else
       (case rbsp_write_loop
               (mask_le_000003_of (LoadUINT64LE m data) last_mask_eq_00
                  (of_nat (if 8 < sz then 8 else sz)))
               (LoadUINT64LE m data) 8 out rbsp_end of
          (data_word2, data_size2, out2, rbsp_end2) \<Rightarrow>
            if sz - (if 8 < sz then 8 else sz) > 0
            then ExtractRBSP_loop m (data + (if 8 < sz then 8 else sz))
                   (sz - (if 8 < sz then 8 else sz)) (mask_eq_00_of (LoadUINT64LE m data))
                   (if data_size2 > 0 then StoreUINT64LE out2 rbsp_end2 data_word2 else out2)
                   (if data_size2 > 0 then rbsp_end2 + unat data_size2 else rbsp_end2)
            else (if data_size2 > 0 then StoreUINT64LE out2 rbsp_end2 data_word2 else out2,
                  if data_size2 > 0 then rbsp_end2 + unat data_size2 else rbsp_end2)))"
  by (subst ExtractRBSP_loop.simps) (simp add: Let_def split: prod.splits)

lemma rbsp_write_loop_eval:
  "rbsp_write_loop (numeral k) data_word data_size out rbsp_end =
    (if drop_bit 8 (drop_bit (unat (push_bit 3 (drop_bit 3 (of_nat (ctz (numeral k :: 64 word)) :: 32 word))))
          (numeral k :: 64 word)) \<noteq> 0
     then rbsp_write_loop
            (drop_bit 8 (drop_bit (unat (push_bit 3 (drop_bit 3 (of_nat (ctz (numeral k :: 64 word)) :: 32 word))))
               (numeral k)))
            (drop_bit 8 (drop_bit (unat (push_bit 3 (drop_bit 3 (of_nat (ctz (numeral k :: 64 word)) :: 32 word))))
               data_word))
            (data_size - (ucast (drop_bit 3 (of_nat (ctz (numeral k :: 64 word)) :: 32 word)) + 1))
            (StoreUINT64LE out rbsp_end data_word)
            (rbsp_end + unat (drop_bit 3 (of_nat (ctz (numeral k :: 64 word)) :: 32 word)))
     else (drop_bit 8 (drop_bit (unat (push_bit 3 (drop_bit 3 (of_nat (ctz (numeral k :: 64 word)) :: 32 word))))
               data_word),
           data_size - (ucast (drop_bit 3 (of_nat (ctz (numeral k :: 64 word)) :: 32 word)) + 1),
           StoreUINT64LE out rbsp_end data_word,
           rbsp_end + unat (drop_bit 3 (of_nat (ctz (numeral k :: 64 word)) :: 32 word))))"
  by (subst rbsp_write_loop.simps) (simp add: Let_def)

lemmas rbsp_eval = ExtractRBSP_def ExtractRBSP_loop_eval rbsp_write_loop_eval
  mask_le_000003_of_def mask_eq_00_of_def mask_le_03_of_def StoreUINT64LE_def LoadUINT64LE_def

lemma nal_units_loop_eval:
  "nal_units_loop m nal_unit_type (numeral n) i nal_unit_start nal_unit_end dec =
    (if int nal_unit_end - int nal_unit_start < 2 then Some (Inl dec)
     else if int nal_unit_end - int nal_unit_start < sint (ucast (LoadUINT16BE m nal_unit_start) :: 64 word)
     then Some (Inl dec)
     else if decode_nal_units nal_unit_type then
       (if 256 \<le> unat (LoadUINT16BE m nal_unit_start) then Some (Inl dec)
        else
          case ExtractRBSP m (nal_unit_start + 2) (unat (LoadUINT16BE m nal_unit_start))
                 (dec_rbsp_data dec) 0 of
            (rbsp_size, rbsp) \<Rightarrow>
              (case decode_nal_unit nal_unit_type rbsp_size i (dec \<lparr> dec_rbsp_data := rbsp \<rparr>) of
                 None \<Rightarrow> None
               | Some (result, dec1) \<Rightarrow>
                   if result = 0 then Some (Inl dec1)
                   else nal_units_loop m nal_unit_type (pred_numeral n) (i + 1)
                          (nal_unit_start + 2 + unat (LoadUINT16BE m nal_unit_start))
                          nal_unit_end dec1))
     else nal_units_loop m nal_unit_type (pred_numeral n) (i + 1)
            (nal_unit_start + 2 + unat (LoadUINT16BE m nal_unit_start)) nal_unit_end dec)"
  by (simp only: numeral_eq_Suc nal_units_loop.simps)

lemma nal_unit_arrays_loop_eval:
  "nal_unit_arrays_loop m (numeral n) array_start array_end dec =
    (if int array_end - int array_start < 1 + 2 then Some (0, dec)
     else
       case nal_units_loop m (m array_start AND 0x3f) (unat (LoadUINT16BE m (array_start + 1))) 0
              (array_start + 1 + 2) array_end dec of
         None \<Rightarrow> None
       | Some (Inl dec1) \<Rightarrow> Some (0, dec1)
       | Some (Inr (nal_unit_start, dec1)) \<Rightarrow>
           nal_unit_arrays_loop m (pred_numeral n) nal_unit_start array_end dec1)"
  by (simp only: numeral_eq_Suc nal_unit_arrays_loop.simps)

lemma sei_loop_type_ff:
  "2 \<le> int rbsp_end - int rbsp_top \<Longrightarrow> m rbsp_top = 0xff \<Longrightarrow>
   sei_loop m rbsp_end rbsp_top alpha = (0, alpha)"
  by (subst sei_loop.simps) simp

lemmas hvcc_eval = DecodeHEVCDecoderConfiguration_def decode_nal_units_def decode_nal_unit_def
  DecodePictureParameterSet_def DecodeSupplementalEnhancementInformation_def
  NAL_VPS_def NAL_SPS_def NAL_PPS_def NAL_SEI_PREFIX_def decoder_zero_def
  LoadUINT16BE_def LoadUINT32BE_def LoadUINT64BE_def Initialize_def
  nal_units_loop_eval nal_unit_arrays_loop_eval sei_loop_type_ff

section \<open>The hvcC configuration decoder\<close>

text \<open>
  C7: \<open>DecodeHEVCDecoderConfiguration\<close> is claimed to return 0 when a NAL-unit length overruns
  the remaining payload and when any dispatched decoder, the SEI decoder included, fails, and
  to read only within the bounds it validated. The code compares the declared length of a NAL
  unit with the bytes left from the start of its two-byte length field, so a unit may run two
  bytes past the payload: on the 36-byte payload \<open>hvcc_nal_overrun\<close>, whose last PPS unit is
  declared four bytes long with two bytes left, the call returns 1 when the two bytes after the
  payload are \<open>C0 00\<close> and 0 when they are \<open>20 00\<close>, so the result is decided by bytes outside
  the payload. The code also drops the result of the SEI decoder: the SEI decoder returns 0 on
  the RBSP \<open>4E 01 FF 00\<close>, and the configuration \<open>hvcc_failing_sei\<close> that carries this unit is
  accepted with 1.
\<close>

theorem DecodeHEVCDecoderConfiguration_accepts_overrun_and_failed_sei:
  "length hvcc_nal_overrun = 36 \<and>
   map_option fst (DecodeHEVCDecoderConfiguration (mem_of (hvcc_nal_overrun @ [0xC0, 0x00]))
      decoder_zero 0 36) = Some 1 \<and>
   map_option fst (DecodeHEVCDecoderConfiguration (mem_of (hvcc_nal_overrun @ [0x20, 0x00]))
      decoder_zero 0 36) = Some 0 \<and>
   length hvcc_failing_sei = 38 \<and>
   fst (DecodeSupplementalEnhancementInformation (mem_of [0x4E, 0x01, 0xFF, 0x00]) alpha_zero 0 4) = 0 \<and>
   map_option fst (DecodeHEVCDecoderConfiguration (mem_of hvcc_failing_sei) decoder_zero 0 38) = Some 1"
proof -
  have 1: "map_option fst (DecodeHEVCDecoderConfiguration (mem_of (hvcc_nal_overrun @ [0xC0, 0x00]))
      decoder_zero 0 36) = Some 1"
    by (simp add: hvcc_eval hvcc_nal_overrun_def mem_of_def rbsp_eval reader_eval num_eval
        del: add_2_eq_Suc add_2_eq_Suc')
  have 2: "map_option fst (DecodeHEVCDecoderConfiguration (mem_of (hvcc_nal_overrun @ [0x20, 0x00]))
      decoder_zero 0 36) = Some 0"
    by (simp add: hvcc_eval hvcc_nal_overrun_def mem_of_def rbsp_eval reader_eval num_eval
        del: add_2_eq_Suc add_2_eq_Suc')
  have 3: "fst (DecodeSupplementalEnhancementInformation (mem_of [0x4E, 0x01, 0xFF, 0x00])
      alpha_zero 0 4) = 0"
    by (simp add: hvcc_eval mem_of_def del: add_2_eq_Suc add_2_eq_Suc')
  have 4: "map_option fst (DecodeHEVCDecoderConfiguration (mem_of hvcc_failing_sei)
      decoder_zero 0 38) = Some 1"
    by (simp add: hvcc_eval hvcc_failing_sei_def mem_of_def rbsp_eval reader_eval num_eval
        del: add_2_eq_Suc add_2_eq_Suc')
  have 5: "length hvcc_nal_overrun = 36" "length hvcc_failing_sei = 38"
    by (simp_all add: hvcc_nal_overrun_def hvcc_failing_sei_def)
  from 1 2 3 4 5 show ?thesis by (simp only: simp_thms)
qed

section \<open>The picture order count of a slice\<close>

lemmas slice_eval = DecodeSliceHeader_def mem_of_def LoadUINT16BE_def LoadUINT32BE_def
  LoadUINT64BE_def BitExtractUINT32_def Initialize_def reader_eval num_eval IsIRAP_def IsIDR_def
  NAL_BLA_W_LP_def NAL_IDR_W_RADL_def NAL_IDR_N_LP_def NAL_RSV_IRAP_VCL23_def
  slice_decoder_def slice_output_flag_decoder_def decoder_zero_def word_le_nat_alt Let_def

text \<open>
  C5: for a packet whose first flag is set and whose NAL unit type is not an IDR type,
  \<open>DecodeSliceHeader\<close> is claimed to return the \<open>slice_pic_order_cnt_lsb\<close> field. In
  \<open>slice_long_type_packet\<close> the first flag (bit 48 of the packet) is set, the NAL unit type
  (bits 33 to 38) is 1, and the field, the 10 bits from bit 112, is 683. After the 61 bits of
  the slice type the reader holds 1 bit, so \<open>SkipBits(1)\<close> for \<open>pic_output_flag\<close> reloads the
  cache with nothing left to skip, and its last statement shifts by \<open>length_ = 64\<close> and clears
  the cache; \<open>GetBits(10)\<close> then returns 0. The packet of the comment in the source is decoded
  to its field, 4.
\<close>

theorem DecodeSliceHeader_returns_zero_after_cleared_cache:
  "stream_bit (mem_of slice_long_type_packet) 48 \<and>
   stream_bits (mem_of slice_long_type_packet) 33 6 = 1 \<and>
   stream_bits (mem_of slice_long_type_packet) 112 10 = 683 \<and>
   DecodeSliceHeader (mem_of slice_long_type_packet) slice_output_flag_decoder 0 16 = Some 0 \<and>
   DecodeSliceHeader (mem_of slice_packet) slice_decoder 0 10 = Some 4"
proof -
  have 1: "stream_bit (mem_of slice_long_type_packet) 48"
    by (simp add: stream_bit_def mem_of_def slice_long_type_packet_def bit_numeral_simps)
  have 2: "stream_bits (mem_of slice_long_type_packet) 33 6 = 1" by code_simp
  have 3: "stream_bits (mem_of slice_long_type_packet) 112 10 = 683" by code_simp
  have 4: "DecodeSliceHeader (mem_of slice_long_type_packet) slice_output_flag_decoder 0 16 = Some 0"
    by (simp add: slice_eval slice_long_type_packet_def del: add_2_eq_Suc add_2_eq_Suc')
  have 5: "DecodeSliceHeader (mem_of slice_packet) slice_decoder 0 10 = Some 4"
    by (simp add: slice_eval slice_packet_def del: add_2_eq_Suc add_2_eq_Suc')
  from 1 2 3 4 5 show ?thesis by (simp only: simp_thms)
qed

section \<open>The sample table and the stts runs\<close>

lemma stts_loop_eval:
  "stts_loop t number_of_samples (numeral n) i entry_start samples =
     (if entry_start + stts_entry_count t i > number_of_samples then None
      else if entry_start < entry_start + stts_entry_count t i
      then stts_loop t number_of_samples (pred_numeral n) (i + 1)
             (entry_start + stts_entry_count t i)
             (duration_run samples (stts_duration t i) (unat entry_start)
                (unat (entry_start + stts_entry_count t i) - unat entry_start))
      else stts_loop t number_of_samples (pred_numeral n) (i + 1) entry_start samples)"
  by (simp add: numeral_eq_Suc Let_def)

text \<open>
  C6: the construction of the sample table is claimed to fail when an \<open>stts\<close> run extends past
  the total sample count. \<open>Create\<close> computes the end of a run as
  \<open>entry_start + entry->GetCount()\<close> in \<open>uint32_t\<close> and compares it with
  \<open>number_of_samples_\<close>. On a stream with one sample and the runs 1 and 0xFFFFFFFF the end of
  the second run wraps around to 0, the test \<open>entry_end > number_of_samples_\<close> does not fire
  and the table is produced; with a second run of one sample, which ends at 2, the same
  stream is rejected with \<open>kVTVideoDecoderBadDataErr\<close>.
\<close>

theorem Create_samples_accepts_wrapping_stts_run:
  "Create_samples stts_wrap_tables True (\<lambda>offset size. 0) =
     Some (Inr [\<lparr> smp_offset = 0x30, smp_size = 0x10, smp_duration = 100,
                  smp_picture_order_count = 0 \<rparr>]) \<and>
   Create_samples stts_wrap_tables_fixed True (\<lambda>offset size. 0) =
     Some (Inl kVTVideoDecoderBadDataErr)"
  by (simp add: Create_samples_def InitializeSamples_def stts_wrap_tables_def
      stts_wrap_tables_fixed_def chunk_walk.simps stts_loop_eval word_less_nat_alt word_le_nat_alt)

section \<open>Emulation prevention on a last chunk of fewer than eight bytes\<close>

text \<open>
  C3: the length \<open>ExtractRBSP\<close> returns is claimed to be at most the length of its input,
  and the output to be the input without the third byte of every \<open>00 00 03\<close>. On the three
  input bytes \<open>00 00 03\<close> the last chunk has three bytes and contains a byte to remove. The
  branch that writes such a chunk sets \<open>data_size = sizeof(uint64_t)\<close>, so it writes the two
  zero bytes and then the five bytes that follow the input in memory: the call returns 7,
  and the output is \<open>00 00 AA BB CC DD EE\<close>.
\<close>

theorem ExtractRBSP_partial_chunk_too_long:
  "fst (ExtractRBSP (mem_of rbsp_short_input) 0 3 (\<lambda>a. 0) 0) = 7 \<and>
   rbsp_bytes (mem_of rbsp_short_input) 0 3 (\<lambda>a. 0) 0 = [0x00, 0x00, 0xAA, 0xBB, 0xCC, 0xDD, 0xEE]"
  by (simp add: rbsp_bytes_def rbsp_eval mem_of_def rbsp_short_input_def num_eval upt_conv_Cons
       del: add_2_eq_Suc add_2_eq_Suc')

end
